theory Spec2Isabelle
  imports Main "HOL-Library.Word" "HOL-Library.Sublist"
begin

section \<open>JavaScript strings\<close>

text \<open>
  A JavaScript string is a sequence of UTF-16 code units; \<open>.length\<close> counts code units.
  String literals of the source are ASCII and are embedded with \<open>js\<close>.
\<close>

type_synonym code_unit = "16 word"
type_synonym jsstring = "code_unit list"

definition js :: "string \<Rightarrow> jsstring" where
  "js s = map of_char s"

text \<open>
  \<open>String.prototype.trim\<close> strips WhiteSpace and LineTerminator code points from both
  ends: TAB, LF, VT, FF, CR, SPACE, NBSP, U+1680, U+2000..U+200A, U+2028, U+2029,
  U+202F, U+205F, U+3000 and U+FEFF.
\<close>

definition is_js_whitespace :: "code_unit \<Rightarrow> bool" where
  "is_js_whitespace c =
     (c = 0x9 \<or> c = 0xA \<or> c = 0xB \<or> c = 0xC \<or> c = 0xD \<or> c = 0x20 \<or> c = 0xA0 \<or>
      c = 0x1680 \<or> (0x2000 \<le> c \<and> c \<le> 0x200A) \<or> c = 0x2028 \<or> c = 0x2029 \<or>
      c = 0x202F \<or> c = 0x205F \<or> c = 0x3000 \<or> c = 0xFEFF)"

definition js_trim :: "jsstring \<Rightarrow> jsstring" where
  "js_trim s = rev (dropWhile is_js_whitespace (rev (dropWhile is_js_whitespace s)))"

text \<open>\<open>s.split('\n')\<close>: the pieces of \<open>s\<close> between line feeds (never an empty array).\<close>

fun js_split_lf :: "jsstring \<Rightarrow> jsstring list" where
  "js_split_lf [] = [[]]"
| "js_split_lf (c # cs) =
     (if c = 0xA then [] # js_split_lf cs
      else (case js_split_lf cs of l # ls \<Rightarrow> (c # l) # ls | [] \<Rightarrow> [[c]]))"

text \<open>\<open>lines.join(sep)\<close>.\<close>

fun js_join :: "'a list \<Rightarrow> 'a list list \<Rightarrow> 'a list" where
  "js_join sep [] = []"
| "js_join sep [l] = l"
| "js_join sep (l # m # ls) = l @ sep @ js_join sep (m # ls)"

section \<open>JavaScript values, as the request carries them\<close>

text \<open>
  \<open>req.body\<close> is whatever the body parsers left: \<open>undefined\<close>, a string (text body), or
  the result of \<open>JSON.parse\<close> (an object, kept as its key/value pairs in order, or an
  array). A number is kept as what the handler can observe of it: whether it is truthy
  (neither \<open>+0\<close>, \<open>-0\<close> nor \<open>NaN\<close>) and its text under \<open>Number::toString\<close>.
\<close>

datatype jsval =
    JUndefined
  | JNull
  | JBool bool
  | JNum bool jsstring
  | JStr jsstring
  | JArr "jsval list"
  | JObj "(jsstring \<times> jsval) list"

text \<open>ToBoolean: \<open>undefined\<close>, \<open>null\<close>, \<open>false\<close>, \<open>+0\<close>, \<open>-0\<close>, \<open>NaN\<close> and \<open>''\<close> are falsy.\<close>

fun truthy :: "jsval \<Rightarrow> bool" where
  "truthy JUndefined = False"
| "truthy JNull = False"
| "truthy (JBool b) = b"
| "truthy (JNum nonzero digits) = nonzero"
| "truthy (JStr s) = (s \<noteq> [])"
| "truthy (JArr vs) = True"
| "truthy (JObj kvs) = True"

text \<open>\<open>a || b\<close>.\<close>

definition js_or :: "jsval \<Rightarrow> jsval \<Rightarrow> jsval" where
  "js_or a b = (if truthy a then a else b)"

text \<open>\<open>typeof v === 'string'\<close>.\<close>

fun is_string :: "jsval \<Rightarrow> bool" where
  "is_string (JStr s) = True"
| "is_string v = False"

text \<open>
  \<open>v.k\<close> for the property names the handler reads (\<open>content\<close>, \<open>esqlContent\<close>,
  \<open>filename\<close>): an own property of a parsed object, and \<open>undefined\<close> on every other
  value the handler reads them from (strings, arrays, numbers and booleans have no
  property of these names, own or inherited).
\<close>

fun js_get :: "jsval \<Rightarrow> jsstring \<Rightarrow> jsval" where
  "js_get (JObj kvs) k = (case map_of kvs k of Some v \<Rightarrow> v | None \<Rightarrow> JUndefined)"
| "js_get v k = JUndefined"

section \<open>Exceptions\<close>

text \<open>
  The source throws \<open>Error\<close> itself; the engine throws \<open>TypeError\<close> when a method is
  called on a value that has none of that name. The messages of the latter are V8's.
\<close>

datatype js_exn = Error jsstring | TypeError jsstring

fun message :: "js_exn \<Rightarrow> jsstring" where
  "message (Error m) = m"
| "message (TypeError m) = m"

text \<open>
  ToString, as the template literal applies it to \<open>originalFileName\<close>. A parsed object
  with an own \<open>toString\<close> key (never callable) has no usable conversion; an array joins
  its elements with commas, \<open>null\<close> giving the empty string.
\<close>

fun first_error :: "('e + 'a) list \<Rightarrow> 'e + 'a list" where
  "first_error [] = Inr []"
| "first_error (Inl e # rs) = Inl e"
| "first_error (Inr x # rs) = (case first_error rs of Inl e \<Rightarrow> Inl e | Inr xs \<Rightarrow> Inr (x # xs))"

fun js_ToString :: "jsval \<Rightarrow> js_exn + jsstring" where
  "js_ToString JUndefined = Inr (js ''undefined'')"
| "js_ToString JNull = Inr (js ''null'')"
| "js_ToString (JBool b) = Inr (js (if b then ''true'' else ''false''))"
| "js_ToString (JNum nonzero digits) = Inr digits"
| "js_ToString (JStr s) = Inr s"
| "js_ToString (JArr vs) =
     (case first_error
             (map (\<lambda>v. if v = JUndefined \<or> v = JNull then Inr [] else js_ToString v) vs) of
        Inl e \<Rightarrow> Inl e
      | Inr parts \<Rightarrow> Inr (js_join (js '','') parts))"
| "js_ToString (JObj kvs) =
     (if map_of kvs (js ''toString'') \<noteq> None
      then Inl (TypeError (js ''Cannot convert object to primitive value''))
      else Inr (js ''[object Object]''))"

section \<open>The conversion function (src/Node.js, lines 17 to 86)\<close>

text \<open>
  The template literal of lines 24 to 83, line by line: the lines before the two
  generated comments, and the lines after them. Lines are joined by line feeds.
\<close>

definition xsd_prolog :: "string list" where
  \<open>xsd_prolog = [
    ''<?xml version="1.0" encoding="UTF-8"?>'',
    ''<xs:schema xmlns:xs="http://www.w3.org/2001/XMLSchema"'',
    ''           targetNamespace="http://esql.conversion.schema"'',
    ''           xmlns:tns="http://esql.conversion.schema"'',
    ''           elementFormDefault="qualified"'',
    ''           attributeFormDefault="unqualified">'',
    ''    '']\<close>

definition xsd_skeleton :: "string list" where
  \<open>xsd_skeleton = [
    ''    '',
    ''    <!-- Root element definition -->'',
    ''    <xs:element name="TransformedMessage" type="tns:TransformedMessageType"/>'',
    ''    '',
    ''    <!-- Main complex type for transformed message -->'',
    ''    <xs:complexType name="TransformedMessageType">'',
    ''        <xs:sequence>'',
    ''            <xs:element name="Header" type="tns:HeaderType" minOccurs="0"/>'',
    ''            <xs:element name="Body" type="tns:BodyType" minOccurs="0"/>'',
    ''            <xs:element name="ProcessingInfo" type="tns:ProcessingInfoType" minOccurs="0"/>'',
    ''        </xs:sequence>'',
    ''    </xs:complexType>'',
    ''    '',
    ''    <!-- Header type definition -->'',
    ''    <xs:complexType name="HeaderType">'',
    ''        <xs:sequence>'',
    ''            <xs:element name="MessageID" type="xs:string" minOccurs="0"/>'',
    ''            <xs:element name="Timestamp" type="xs:dateTime" minOccurs="0"/>'',
    ''            <xs:element name="Source" type="xs:string" minOccurs="0"/>'',
    ''            <xs:element name="Destination" type="xs:string" minOccurs="0"/>'',
    ''        </xs:sequence>'',
    ''    </xs:complexType>'',
    ''    '',
    ''    <!-- Processing info type -->'',
    ''    <xs:complexType name="ProcessingInfoType">'',
    ''        <xs:sequence>'',
    ''            <xs:element name="Timestamp" type="xs:dateTime" minOccurs="0"/>'',
    ''            <xs:element name="ProcessedBy" type="xs:string" minOccurs="0"/>'',
    ''            <xs:element name="Status" type="tns:ProcessingStatusType" minOccurs="0"/>'',
    ''        </xs:sequence>'',
    ''    </xs:complexType>'',
    ''    '',
    ''    <!-- Processing status enumeration -->'',
    ''    <xs:simpleType name="ProcessingStatusType">'',
    ''        <xs:restriction base="xs:string">'',
    ''            <xs:enumeration value="SUCCESS"/>'',
    ''            <xs:enumeration value="PROCESSING"/>'',
    ''            <xs:enumeration value="ERROR"/>'',
    ''            <xs:enumeration value="COMPLETED"/>'',
    ''        </xs:restriction>'',
    ''    </xs:simpleType>'',
    '''',
    ''    <!-- Body type definition -->'',
    ''    <xs:complexType name="BodyType">'',
    ''        <xs:sequence>'',
    ''            <xs:element name="ProcessingResult" type="xs:string" minOccurs="0"/>'',
    ''            <xs:element name="ProcessedElements" type="xs:integer" minOccurs="0"/>'',
    ''        </xs:sequence>'',
    ''    </xs:complexType>'',
    '''',
    ''</xs:schema>'']\<close>

definition xsd_template :: "string list \<Rightarrow> jsstring \<Rightarrow> jsstring \<Rightarrow> jsstring" where
  "xsd_template skeleton originalFileName now =
     js_join [0xA]
       (map js xsd_prolog @
        [js ''    <!-- Generated from ESQL file: '' @ originalFileName @ js '' -->'',
         js ''    <!-- Generated on: '' @ now @ js '' -->''] @
        map js skeleton)"

text \<open>
  \<open>convertESQLToXSD(esqlCode, originalFileName = 'converted_file.esql')\<close>. \<open>now\<close> is what
  \<open>new Date().toISOString()\<close> returns on line 32. The array \<open>lines\<close> of line 22 is
  computed and never read.
\<close>

definition convertESQLToXSD ::
  "jsstring \<Rightarrow> jsval \<Rightarrow> jsval \<Rightarrow> js_exn + jsstring" where
  "convertESQLToXSD now esqlCode originalFileName' =
     (let originalFileName =
            (if originalFileName' = JUndefined then JStr (js ''converted_file.esql'')
             else originalFileName')
      in if \<not> truthy esqlCode then Inl (Error (js ''ESQL content is empty''))
         else (case esqlCode of
                 JStr s \<Rightarrow>
                   if js_trim s = [] then Inl (Error (js ''ESQL content is empty''))
                   else (let lines = filter (\<lambda>line. 0 < length line)
                                       (map js_trim (js_split_lf s))
                         in case js_ToString originalFileName of
                              Inl e \<Rightarrow> Inl e
                            | Inr name \<Rightarrow> Inr (xsd_template xsd_skeleton name now))
               | _ \<Rightarrow> Inl (TypeError (js ''esqlCode.trim is not a function''))))"

text \<open>
  The third revision of the file (lines 288 to 378) has the same function over a longer
  skeleton and without the unused \<open>lines\<close>.
\<close>

definition xsd_skeleton_r3 :: "string list" where
  \<open>xsd_skeleton_r3 = [
    ''    '',
    ''    <!-- Root element definition -->'',
    ''    <xs:element name="TransformedMessage" type="tns:TransformedMessageType"/>'',
    ''    '',
    ''    <!-- Main complex type for transformed message -->'',
    ''    <xs:complexType name="TransformedMessageType">'',
    ''        <xs:sequence>'',
    ''            <xs:element name="Header" type="tns:HeaderType" minOccurs="0"/>'',
    ''            <xs:element name="Body" type="tns:BodyType" minOccurs="0"/>'',
    ''            <xs:element name="ProcessingInfo" type="tns:ProcessingInfoType" minOccurs="0"/>'',
    ''        </xs:sequence>'',
    ''    </xs:complexType>'',
    ''    '',
    ''    <!-- Header type definition -->'',
    ''    <xs:complexType name="HeaderType">'',
    ''        <xs:sequence>'',
    ''            <xs:element name="MessageID" type="xs:string" minOccurs="0"/>'',
    ''            <xs:element name="Timestamp" type="xs:dateTime" minOccurs="0"/>'',
    ''            <xs:element name="Source" type="xs:string" minOccurs="0"/>'',
    ''            <xs:element name="Destination" type="xs:string" minOccurs="0"/>'',
    ''        </xs:sequence>'',
    ''    </xs:complexType>'',
    ''    '',
    ''    <!-- Processing info type -->'',
    ''    <xs:complexType name="ProcessingInfoType">'',
    ''        <xs:sequence>'',
    ''            <xs:element name="Timestamp" type="xs:dateTime" minOccurs="0"/>'',
    ''            <xs:element name="ProcessedBy" type="xs:string" minOccurs="0"/>'',
    ''            <xs:element name="Status" type="tns:ProcessingStatusType" minOccurs="0"/>'',
    ''        </xs:sequence>'',
    ''    </xs:complexType>'',
    ''    '',
    ''    <!-- Processing status enumeration -->'',
    ''    <xs:simpleType name="ProcessingStatusType">'',
    ''        <xs:restriction base="xs:string">'',
    ''            <xs:enumeration value="SUCCESS"/>'',
    ''            <xs:enumeration value="PROCESSING"/>'',
    ''            <xs:enumeration value="ERROR"/>'',
    ''            <xs:enumeration value="COMPLETED"/>'',
    ''        </xs:restriction>'',
    ''    </xs:simpleType>'',
    '''',
    ''    <!-- Body type definition -->'',
    ''    <xs:complexType name="BodyType">'',
    ''        <xs:sequence>'',
    ''            <xs:element name="ProcessingResult" type="xs:string" minOccurs="0"/>'',
    ''            <xs:element name="ProcessedElements" type="xs:integer" minOccurs="0"/>'',
    ''            <xs:element name="CustomerInfo" type="tns:CustomerInfoType" minOccurs="0"/>'',
    ''            <xs:element name="OrderDetails" type="tns:OrderDetailsType" minOccurs="0"/>'',
    ''        </xs:sequence>'',
    ''    </xs:complexType>'',
    ''    '',
    ''    <!-- Customer info type -->'',
    ''    <xs:complexType name="CustomerInfoType">'',
    ''        <xs:sequence>'',
    ''            <xs:element name="ID" type="xs:string" minOccurs="0"/>'',
    ''            <xs:element name="Name" type="xs:string" minOccurs="0"/>'',
    ''            <xs:element name="Email" type="xs:string" minOccurs="0"/>'',
    ''            <xs:element name="Phone" type="xs:string" minOccurs="0"/>'',
    ''        </xs:sequence>'',
    ''    </xs:complexType>'',
    ''    '',
    ''    <!-- Order details type -->'',
    ''    <xs:complexType name="OrderDetailsType">'',
    ''        <xs:sequence>'',
    ''            <xs:element name="OrderNumber" type="xs:string" minOccurs="0"/>'',
    ''            <xs:element name="OrderDate" type="xs:date" minOccurs="0"/>'',
    ''            <xs:element name="TotalAmount" type="xs:decimal" minOccurs="0"/>'',
    ''            <xs:element name="Status" type="xs:string" minOccurs="0"/>'',
    ''        </xs:sequence>'',
    ''    </xs:complexType>'',
    '''',
    ''</xs:schema>'']\<close>

definition convertESQLToXSD_r3 ::
  "jsstring \<Rightarrow> jsval \<Rightarrow> jsval \<Rightarrow> js_exn + jsstring" where
  "convertESQLToXSD_r3 now esqlCode originalFileName' =
     (let originalFileName =
            (if originalFileName' = JUndefined then JStr (js ''converted_file.esql'')
             else originalFileName')
      in if \<not> truthy esqlCode then Inl (Error (js ''ESQL content is empty''))
         else (case esqlCode of
                 JStr s \<Rightarrow>
                   if js_trim s = [] then Inl (Error (js ''ESQL content is empty''))
                   else (case js_ToString originalFileName of
                           Inl e \<Rightarrow> Inl e
                         | Inr name \<Rightarrow> Inr (xsd_template xsd_skeleton_r3 name now))
               | _ \<Rightarrow> Inl (TypeError (js ''esqlCode.trim is not a function''))))"

section \<open>The route handler (src/Node.js, lines 89 to 128)\<close>

text \<open>
  \<open>fileName.replace(/\.esql$/i, '.xsd')\<close>. Under the flag \<open>i\<close> (without \<open>u\<close>) a pattern
  letter matches its two ASCII cases only, since a non-ASCII code unit is never
  canonicalised to an ASCII one. The pattern ends in \<open>$\<close>, so an attempt at a start
  index succeeds exactly when the rest of the string is the five code units of the
  suffix; \<open>replace\<close> tries the start indices from the left and rewrites the first match.
\<close>

definition regex_char_i :: "code_unit \<Rightarrow> code_unit \<Rightarrow> bool" where
  "regex_char_i p c = (c = p \<or> (0x61 \<le> p \<and> p \<le> 0x7A \<and> c = p - 0x20))"

definition esql_at_end :: "jsstring \<Rightarrow> bool" where
  "esql_at_end s = list_all2 regex_char_i (js ''.esql'') s"

fun replace_esql :: "jsstring \<Rightarrow> jsstring" where
  "replace_esql [] = []"
| "replace_esql (c # cs) =
     (if esql_at_end (c # cs) then js ''.xsd'' else c # replace_esql cs)"

text \<open>
  The request as the handler reads it. \<open>files_file\<close> is \<open>req.files.file\<close>: absent (the
  empty list), one uploaded file, or, when several parts are named \<open>file\<close>, the array
  express-fileupload builds. \<open>data\<close> stands for \<open>data.toString('utf8')\<close>, the only way the
  buffer is read.
\<close>

record upload =
  data :: jsstring
  name :: jsstring

record request =
  files_file :: "upload list"
  body :: jsval

text \<open>
  The response: the status and the object given to \<open>res.json\<close>, fields in order.
\<close>

datatype field = FBool bool | FNumber nat | FString jsstring

record response =
  status :: nat
  json :: "(string \<times> field) list"

text \<open>Lines 91 to 102: \<open>esqlContent\<close> and \<open>fileName\<close>.\<close>

definition extract_input :: "request \<Rightarrow> js_exn + jsval \<times> jsval" where
  "extract_input req =
     (case files_file req of
        [] \<Rightarrow>
          if truthy (body req)
          then Inr (if is_string (body req) then body req
                    else js_or (js_get (body req) (js ''content''))
                               (js_get (body req) (js ''esqlContent'')),
                    js_or (js_get (body req) (js ''filename'')) (JStr (js ''input.esql'')))
          else Inr (JStr [], JStr (js ''unknown.esql''))
      | [file] \<Rightarrow> Inr (JStr (data file), JStr (name file))
      | _ \<Rightarrow> Inl (TypeError (js ''Cannot read properties of undefined (reading 'toString')'')))"

text \<open>
  \<open>esqlContent.length\<close>, read on line 116 only after \<open>convertESQLToXSD\<close> has returned,
  which it does for strings only.
\<close>

fun js_length :: "jsval \<Rightarrow> nat" where
  "js_length (JStr s) = length s"
| "js_length v = 0"

text \<open>
  The \<open>try\<close> block, lines 91 to 120, over the conversion function \<open>conv\<close> of the
  revision; \<open>now\<close> is \<open>new Date().toISOString()\<close> of line 118.
\<close>

definition try_convert ::
  "(jsval \<Rightarrow> jsval \<Rightarrow> js_exn + jsstring) \<Rightarrow> jsstring \<Rightarrow> request \<Rightarrow>
     js_exn + (string \<times> field) list" where
  "try_convert conv now req =
     (case extract_input req of
        Inl e \<Rightarrow> Inl e
      | Inr (esqlContent, fileName) \<Rightarrow>
          if \<not> truthy esqlContent then Inl (Error (js ''No ESQL content provided''))
          else (case conv esqlContent fileName of
                  Inl e \<Rightarrow> Inl e
                | Inr xsdContent \<Rightarrow>
                    (case fileName of
                       JStr f \<Rightarrow>
                         Inr [(''success'', FBool True),
                              (''originalFileName'', FString f),
                              (''convertedFileName'', FString (replace_esql f)),
                              (''xsdContent'', FString xsdContent),
                              (''esqlContentLength'', FNumber (js_length esqlContent)),
                              (''xsdContentLength'', FNumber (length xsdContent)),
                              (''conversionDate'', FString now),
                              (''conversionType'', FString (js ''ESQL_TO_XSD''))]
                     | _ \<Rightarrow> Inl (TypeError (js ''fileName.replace is not a function'')))))"

text \<open>The handler with its \<open>catch\<close>, lines 122 to 127.\<close>

definition handle_convert ::
  "(jsval \<Rightarrow> jsval \<Rightarrow> js_exn + jsstring) \<Rightarrow> jsstring \<Rightarrow> request \<Rightarrow> response" where
  "handle_convert conv now req =
     (case try_convert conv now req of
        Inr payload \<Rightarrow> \<lparr>status = 200, json = payload\<rparr>
      | Inl error \<Rightarrow>
          \<lparr>status = 400,
           json = [(''success'', FBool False), (''error'', FString (message error))]\<rparr>)"

text \<open>
  \<open>app.post('/api/convert', ...)\<close> of the first revision: \<open>render_time\<close> and
  \<open>response_time\<close> are the clock's two readings.
\<close>

definition api_convert ::
  "jsstring \<Rightarrow> jsstring \<Rightarrow> request \<Rightarrow> response" where
  "api_convert render_time response_time req =
     handle_convert (convertESQLToXSD render_time) response_time req"

section \<open>The third revision: the error-handling middleware (lines 456 to 463)\<close>

text \<open>
  Its handler is the first revision's, over its own conversion function. Express calls
  the error-handling middleware with an error a middleware before the route passed on
  (a body that does not parse, say); what the middleware stack did with a request is
  taken as given.
\<close>

definition api_convert_r3 ::
  "jsstring \<Rightarrow> jsstring \<Rightarrow> request \<Rightarrow> response" where
  "api_convert_r3 render_time response_time req =
     handle_convert (convertESQLToXSD_r3 render_time) response_time req"

definition error_middleware :: "js_exn \<Rightarrow> response" where
  "error_middleware error =
     \<lparr>status = 500,
      json = [(''success'', FBool False), (''error'', FString (js ''Internal server error''))]\<rparr>"

datatype dispatch = MiddlewareFailed js_exn | Routed request

fun app_r3 :: "jsstring \<Rightarrow> jsstring \<Rightarrow> dispatch \<Rightarrow> response" where
  "app_r3 render_time response_time (MiddlewareFailed error) = error_middleware error"
| "app_r3 render_time response_time (Routed req) =
     api_convert_r3 render_time response_time req"

section \<open>The first revision: answers given before the handler (lines 8 to 14)\<close>

text \<open>
  Lines 9 to 14 put \<open>express.json\<close>, \<open>express.text\<close> and \<open>fileUpload\<close> with \<open>abortOnLimit\<close>
  before the route, and the first revision registers no error-handling middleware. A
  body parser that refuses a body (JSON that does not parse, a body over the limit)
  passes on an error that carries an HTTP status, and Express's own final handler answers
  with that status when it lies between 400 and 599, with 500 otherwise, and an HTML
  page. \<open>fileUpload\<close> answers an upload over the limit itself, with status 413 and a
  text. Parsers and pages are library code: what the middleware did with a request is
  taken as given, and of an answer that is not JSON only the kind of its body is kept.
\<close>

datatype content = JsonObject "(string \<times> field) list" | ErrorPage | PlainText

record reply =
  code :: nat
  sent :: content

datatype arrival = ParserFailed nat | UploadAborted | Handled request

definition final_handler :: "nat \<Rightarrow> reply" where
  "final_handler err_status =
     \<lparr>code = (if 400 \<le> err_status \<and> err_status < 600 then err_status else 500),
      sent = ErrorPage\<rparr>"

fun post_api_convert :: "jsstring \<Rightarrow> jsstring \<Rightarrow> arrival \<Rightarrow> reply" where
  "post_api_convert render_time response_time (ParserFailed err_status) =
     final_handler err_status"
| "post_api_convert render_time response_time UploadAborted = \<lparr>code = 413, sent = PlainText\<rparr>"
| "post_api_convert render_time response_time (Handled req) =
     \<lparr>code = status (api_convert render_time response_time req),
      sent = JsonObject (json (api_convert render_time response_time req))\<rparr>"

section \<open>The second revision (lines 170 to 271)\<close>

text \<open>
  The revision built on multer: a shorter template, no guard before the conversion, no
  \<open>esqlContent\<close> field, and a success object of five fields. \<open>upload.single('file')\<close>
  leaves at most one file in \<open>req.file\<close>.
\<close>

definition xsd_prolog_r2 :: "string list" where
  \<open>xsd_prolog_r2 = [
    ''<?xml version="1.0" encoding="UTF-8"?>'',
    ''<xs:schema xmlns:xs="http://www.w3.org/2001/XMLSchema"'',
    ''           targetNamespace="http://esql.conversion.schema"'',
    ''           xmlns:tns="http://esql.conversion.schema"'',
    ''           elementFormDefault="qualified">'',
    ''    '']\<close>

definition xsd_skeleton_r2 :: "string list" where
  \<open>xsd_skeleton_r2 = [
    ''    '',
    ''    <xs:element name="TransformedMessage" type="tns:TransformedMessageType"/>'',
    ''    <!-- Add the rest of your XSD generation logic -->'',
    ''    '',
    ''</xs:schema>'']\<close>

definition convertESQLToXSD_r2 ::
  "jsstring \<Rightarrow> jsval \<Rightarrow> jsval \<Rightarrow> js_exn + jsstring" where
  "convertESQLToXSD_r2 now esqlCode originalFileName' =
     (let originalFileName =
            (if originalFileName' = JUndefined then JStr (js ''converted_file.esql'')
             else originalFileName')
      in if \<not> truthy esqlCode then Inl (Error (js ''ESQL content is empty''))
         else (case esqlCode of
                 JStr s \<Rightarrow>
                   if js_trim s = [] then Inl (Error (js ''ESQL content is empty''))
                   else (let lines = filter (\<lambda>line. 0 < length line)
                                       (map js_trim (js_split_lf s))
                         in case js_ToString originalFileName of
                              Inl e \<Rightarrow> Inl e
                            | Inr file_name \<Rightarrow>
                                Inr (js_join [0xA]
                                       (map js xsd_prolog_r2 @
                                        [js ''    <!-- Generated from ESQL file: '' @ file_name @
                                           js '' -->'',
                                         js ''    <!-- Generated on: '' @ now @ js '' -->''] @
                                        map js xsd_skeleton_r2)))
               | _ \<Rightarrow> Inl (TypeError (js ''esqlCode.trim is not a function''))))"

definition api_convert_r2 ::
  "jsstring \<Rightarrow> jsstring \<Rightarrow> upload option \<Rightarrow> jsval \<Rightarrow> response" where
  "api_convert_r2 render_time response_time req_file req_body =
     (let (esqlContent, fileName) =
            (case req_file of
               Some file \<Rightarrow> (JStr (data file), JStr (name file))
             | None \<Rightarrow>
                 if truthy req_body
                 then (if is_string req_body then req_body else js_get req_body (js ''content''),
                       js_or (js_get req_body (js ''filename'')) (JStr (js ''input.esql'')))
                 else (JStr [], JStr (js ''unknown.esql'')))
      in case (case convertESQLToXSD_r2 render_time esqlContent fileName of
                 Inl e \<Rightarrow> Inl e
               | Inr xsdContent \<Rightarrow>
                   (case fileName of
                      JStr f \<Rightarrow>
                        Inr [(''success'', FBool True),
                             (''originalFileName'', FString f),
                             (''convertedFileName'', FString (replace_esql f)),
                             (''xsdContent'', FString xsdContent),
                             (''conversionDate'', FString response_time)]
                    | _ \<Rightarrow> Inl (TypeError (js ''fileName.replace is not a function'')))) of
           Inr payload \<Rightarrow> \<lparr>status = 200, json = payload\<rparr>
         | Inl error \<Rightarrow>
             \<lparr>status = 400,
              json = [(''success'', FBool False), (''error'', FString (message error))]\<rparr>)"

section \<open>Well-formed XML\<close>

text \<open>
  The rendered document is a JavaScript string. Read as UTF-16 it is a sequence of
  code points; a surrogate code unit that is not half of a pair makes it no text at all.
\<close>

type_synonym code_point = nat

definition high_surrogate :: "code_unit \<Rightarrow> bool" where
  "high_surrogate c = (0xD800 \<le> unat c \<and> unat c \<le> 0xDBFF)"

definition low_surrogate :: "code_unit \<Rightarrow> bool" where
  "low_surrogate c = (0xDC00 \<le> unat c \<and> unat c \<le> 0xDFFF)"

fun utf16_decode :: "jsstring \<Rightarrow> code_point list option" where
  "utf16_decode [] = Some []"
| "utf16_decode [c] = (if high_surrogate c \<or> low_surrogate c then None else Some [unat c])"
| "utf16_decode (c # d # cs) =
     (if high_surrogate c
      then (if low_surrogate d
            then map_option
                   ((#) (0x10000 + (unat c - 0xD800) * 0x400 + (unat d - 0xDC00)))
                   (utf16_decode cs)
            else None)
      else if low_surrogate c then None
      else map_option ((#) (unat c)) (utf16_decode (d # cs)))"

text \<open>
  A checker for XML 1.0 documents (Fifth Edition, productions 1 to 44) without
  document type declaration, processing instructions, CDATA sections and references:
  an optional XML declaration, comments, white space, and one root element of nested
  elements with attributes and character data. It reads the document one code point
  at a time; the state holds the names of the open elements.
\<close>

definition xml_space :: "code_point \<Rightarrow> bool" where
  "xml_space c = (c = 0x20 \<or> c = 0x9 \<or> c = 0xD \<or> c = 0xA)"

definition xml_char :: "code_point \<Rightarrow> bool" where
  "xml_char c =
     (c = 0x9 \<or> c = 0xA \<or> c = 0xD \<or> (0x20 \<le> c \<and> c \<le> 0xD7FF) \<or>
      (0xE000 \<le> c \<and> c \<le> 0xFFFD) \<or> (0x10000 \<le> c \<and> c \<le> 0x10FFFF))"

definition name_start_char :: "code_point \<Rightarrow> bool" where
  "name_start_char c =
     (c = 0x3A \<or> (0x41 \<le> c \<and> c \<le> 0x5A) \<or> c = 0x5F \<or> (0x61 \<le> c \<and> c \<le> 0x7A) \<or>
      (0xC0 \<le> c \<and> c \<le> 0xD6) \<or> (0xD8 \<le> c \<and> c \<le> 0xF6) \<or> (0xF8 \<le> c \<and> c \<le> 0x2FF) \<or>
      (0x370 \<le> c \<and> c \<le> 0x37D) \<or> (0x37F \<le> c \<and> c \<le> 0x1FFF) \<or>
      (0x200C \<le> c \<and> c \<le> 0x200D) \<or> (0x2070 \<le> c \<and> c \<le> 0x218F) \<or>
      (0x2C00 \<le> c \<and> c \<le> 0x2FEF) \<or> (0x3001 \<le> c \<and> c \<le> 0xD7FF) \<or>
      (0xF900 \<le> c \<and> c \<le> 0xFDCF) \<or> (0xFDF0 \<le> c \<and> c \<le> 0xFFFD) \<or>
      (0x10000 \<le> c \<and> c \<le> 0xEFFFF))"

definition name_char :: "code_point \<Rightarrow> bool" where
  "name_char c =
     (name_start_char c \<or> c = 0x2D \<or> c = 0x2E \<or> (0x30 \<le> c \<and> c \<le> 0x39) \<or> c = 0xB7 \<or>
      (0x300 \<le> c \<and> c \<le> 0x36F) \<or> (0x203F \<le> c \<and> c \<le> 0x2040))"

type_synonym xml_name = "code_point list"

text \<open>
  Where the checker is: before the first code point; in character data (having just read
  no, one, or at least two \<open>]\<close>); after \<open><\<close>; in a comment (having just read no, one or
  two \<open>-\<close>); in a name; inside a tag. Inside a tag it holds the tag's name, the
  attributes read so far, and where in the attribute list it is.
\<close>

datatype tag_kind = Decl | Elem

datatype tag_state =
    AfterName
  | Gap
  | AttName xml_name
  | AfterAttName xml_name
  | AfterEq xml_name
  | AttValue xml_name code_point "code_point list"
  | Closing

datatype phase =
    Start
  | StartLt
  | DeclTarget xml_name
  | Content
  | ContentRsb
  | ContentRsbRsb
  | Lt
  | Bang
  | BangDash
  | Comment
  | CommentDash
  | CommentDashDash
  | STagName xml_name
  | InTag tag_kind xml_name "(xml_name \<times> code_point list) list" tag_state
  | ETagName xml_name
  | ETagEnd xml_name

text \<open>The state: the phase, the names of the open elements, and whether the root element
  has been opened.\<close>

type_synonym xml_state = "phase \<times> xml_name list \<times> bool"

text \<open>The pseudo-attributes of the XML declaration (productions 23 to 26, 32, 80, 81).\<close>

definition ascii_digit :: "code_point \<Rightarrow> bool" where
  "ascii_digit c = (0x30 \<le> c \<and> c \<le> 0x39)"

definition ascii_letter :: "code_point \<Rightarrow> bool" where
  "ascii_letter c = ((0x41 \<le> c \<and> c \<le> 0x5A) \<or> (0x61 \<le> c \<and> c \<le> 0x7A))"

fun version_num :: "code_point list \<Rightarrow> bool" where
  "version_num (a # b # d # ds) = (a = 0x31 \<and> b = 0x2E \<and> list_all ascii_digit (d # ds))"
| "version_num v = False"

fun enc_name :: "code_point list \<Rightarrow> bool" where
  "enc_name (a # cs) =
     (ascii_letter a \<and>
      list_all (\<lambda>c. ascii_letter c \<or> ascii_digit c \<or> c = 0x2E \<or> c = 0x5F \<or> c = 0x2D) cs)"
| "enc_name [] = False"

definition yes_no :: "code_point list \<Rightarrow> bool" where
  "yes_no v = (v = map of_char ''yes'' \<or> v = map of_char ''no'')"

fun decl_rest_ok :: "(xml_name \<times> code_point list) list \<Rightarrow> bool" where
  "decl_rest_ok [] = True"
| "decl_rest_ok [(a, v)] =
     ((a = map of_char ''encoding'' \<and> enc_name v) \<or>
      (a = map of_char ''standalone'' \<and> yes_no v))"
| "decl_rest_ok [(a, v), (b, w)] =
     (a = map of_char ''encoding'' \<and> enc_name v \<and>
      b = map of_char ''standalone'' \<and> yes_no w)"
| "decl_rest_ok atts = False"

fun decl_ok :: "(xml_name \<times> code_point list) list \<Rightarrow> bool" where
  "decl_ok ((a, v) # rest) =
     (a = map of_char ''version'' \<and> version_num v \<and> decl_rest_ok rest)"
| "decl_ok [] = False"

text \<open>The end tag \<open></n>\<close> closes the innermost open element, which must be \<open>n\<close>.\<close>

fun close_tag :: "xml_name list \<Rightarrow> bool \<Rightarrow> xml_name \<Rightarrow> xml_state option" where
  "close_tag [] r n = None"
| "close_tag (t # ts) r n = (if t = n then Some (Content, ts, r) else None)"

text \<open>After \<open><\<close>: a comment, an end tag, or a start tag (a second root is refused).\<close>

definition markup_start :: "xml_name list \<Rightarrow> bool \<Rightarrow> code_point \<Rightarrow> xml_state option" where
  "markup_start ts r c =
     (if c = 0x21 then Some (Bang, ts, r)
      else if c = 0x2F then (if ts = [] then None else Some (ETagName [], ts, r))
      else if name_start_char c then (if ts = [] \<and> r then None else Some (STagName [c], ts, r))
      else None)"

text \<open>
  What may follow a tag's name or an attribute, white space apart: \<open>>\<close> opens the
  element, \<open>/\<close> announces an empty element, and in the XML declaration \<open>?\<close> announces
  its end.
\<close>

fun tag_tail ::
  "tag_kind \<Rightarrow> xml_name \<Rightarrow> (xml_name \<times> code_point list) list \<Rightarrow> xml_name list \<Rightarrow> bool \<Rightarrow>
     code_point \<Rightarrow> xml_state option" where
  "tag_tail Elem n atts ts r c =
     (if c = 0x3E then Some (Content, n # ts, True)
      else if c = 0x2F then Some (InTag Elem n atts Closing, ts, r)
      else None)"
| "tag_tail Decl n atts ts r c =
     (if c = 0x3F then Some (InTag Decl n atts Closing, ts, r) else None)"

fun tag_end ::
  "tag_kind \<Rightarrow> (xml_name \<times> code_point list) list \<Rightarrow> xml_name list \<Rightarrow> bool \<Rightarrow>
     xml_state option" where
  "tag_end Elem atts ts r = Some (Content, ts, True)"
| "tag_end Decl atts ts r = (if decl_ok atts then Some (Content, ts, r) else None)"

text \<open>One code point.\<close>

fun xml_step :: "xml_state \<Rightarrow> code_point \<Rightarrow> xml_state option" where
  "xml_step (Start, ts, r) c =
     (if c = 0x3C then Some (StartLt, ts, r)
      else if xml_space c then Some (Content, ts, r)
      else None)"
| "xml_step (StartLt, ts, r) c =
     (if c = 0x3F then Some (DeclTarget [], ts, r) else markup_start ts r c)"
| "xml_step (DeclTarget n, ts, r) c =
     (if xml_space c
      then (if n = map of_char ''xml'' then Some (InTag Decl n [] Gap, ts, r) else None)
      else if name_char c then Some (DeclTarget (n @ [c]), ts, r)
      else None)"
| "xml_step (Content, ts, r) c =
     (if c = 0x3C then Some (Lt, ts, r)
      else if c = 0x26 then None
      else if ts = [] then (if xml_space c then Some (Content, ts, r) else None)
      else if c = 0x5D then Some (ContentRsb, ts, r)
      else if xml_char c then Some (Content, ts, r)
      else None)"
| "xml_step (ContentRsb, ts, r) c =
     (if c = 0x3C then Some (Lt, ts, r)
      else if c = 0x26 then None
      else if c = 0x5D then Some (ContentRsbRsb, ts, r)
      else if xml_char c then Some (Content, ts, r)
      else None)"
| "xml_step (ContentRsbRsb, ts, r) c =
     (if c = 0x3C then Some (Lt, ts, r)
      else if c = 0x26 \<or> c = 0x3E then None
      else if c = 0x5D then Some (ContentRsbRsb, ts, r)
      else if xml_char c then Some (Content, ts, r)
      else None)"
| "xml_step (Lt, ts, r) c = markup_start ts r c"
| "xml_step (Bang, ts, r) c = (if c = 0x2D then Some (BangDash, ts, r) else None)"
| "xml_step (BangDash, ts, r) c = (if c = 0x2D then Some (Comment, ts, r) else None)"
| "xml_step (Comment, ts, r) c =
     (if c = 0x2D then Some (CommentDash, ts, r)
      else if xml_char c then Some (Comment, ts, r)
      else None)"
| "xml_step (CommentDash, ts, r) c =
     (if c = 0x2D then Some (CommentDashDash, ts, r)
      else if xml_char c then Some (Comment, ts, r)
      else None)"
| "xml_step (CommentDashDash, ts, r) c = (if c = 0x3E then Some (Content, ts, r) else None)"
| "xml_step (STagName n, ts, r) c =
     (if name_char c then Some (STagName (n @ [c]), ts, r)
      else if xml_space c then Some (InTag Elem n [] Gap, ts, r)
      else tag_tail Elem n [] ts r c)"
| "xml_step (InTag kind n atts AfterName, ts, r) c =
     (if xml_space c then Some (InTag kind n atts Gap, ts, r) else tag_tail kind n atts ts r c)"
| "xml_step (InTag kind n atts Gap, ts, r) c =
     (if xml_space c then Some (InTag kind n atts Gap, ts, r)
      else if name_start_char c then Some (InTag kind n atts (AttName [c]), ts, r)
      else tag_tail kind n atts ts r c)"
| "xml_step (InTag kind n atts (AttName a), ts, r) c =
     (if name_char c then Some (InTag kind n atts (AttName (a @ [c])), ts, r)
      else if xml_space c then Some (InTag kind n atts (AfterAttName a), ts, r)
      else if c = 0x3D then Some (InTag kind n atts (AfterEq a), ts, r)
      else None)"
| "xml_step (InTag kind n atts (AfterAttName a), ts, r) c =
     (if xml_space c then Some (InTag kind n atts (AfterAttName a), ts, r)
      else if c = 0x3D then Some (InTag kind n atts (AfterEq a), ts, r)
      else None)"
| "xml_step (InTag kind n atts (AfterEq a), ts, r) c =
     (if xml_space c then Some (InTag kind n atts (AfterEq a), ts, r)
      else if c = 0x22 \<or> c = 0x27 then Some (InTag kind n atts (AttValue a c []), ts, r)
      else None)"
| "xml_step (InTag kind n atts (AttValue a q v), ts, r) c =
     (if c = q
      then (if a \<in> fst ` set atts then None
            else Some (InTag kind n (atts @ [(a, v)]) AfterName, ts, r))
      else if c = 0x3C \<or> c = 0x26 then None
      else if xml_char c then Some (InTag kind n atts (AttValue a q (v @ [c])), ts, r)
      else None)"
| "xml_step (InTag kind n atts Closing, ts, r) c =
     (if c = 0x3E then tag_end kind atts ts r else None)"
| "xml_step (ETagName n, ts, r) c =
     (if n = [] then (if name_start_char c then Some (ETagName [c], ts, r) else None)
      else if name_char c then Some (ETagName (n @ [c]), ts, r)
      else if xml_space c then Some (ETagEnd n, ts, r)
      else if c = 0x3E then close_tag ts r n
      else None)"
| "xml_step (ETagEnd n, ts, r) c =
     (if xml_space c then Some (ETagEnd n, ts, r)
      else if c = 0x3E then close_tag ts r n
      else None)"

text \<open>The whole text, stopping at the first code point that is refused.\<close>

fun xml_run :: "xml_state \<Rightarrow> code_point list \<Rightarrow> xml_state option" where
  "xml_run st [] = Some st"
| "xml_run st (c # cs) = (case xml_step st c of None \<Rightarrow> None | Some st' \<Rightarrow> xml_run st' cs)"

text \<open>
  At the end the checker must be in character data, outside every element, after the
  root element.
\<close>

fun xml_accepting :: "xml_state \<Rightarrow> bool" where
  "xml_accepting (p, ts, r) = ((p = Content \<or> p = ContentRsb \<or> p = ContentRsbRsb) \<and> ts = [] \<and> r)"

definition well_formed_xml :: "jsstring \<Rightarrow> bool" where
  "well_formed_xml doc =
     (case utf16_decode doc of
        None \<Rightarrow> False
      | Some cps \<Rightarrow>
          (case xml_run (Start, [], False) cps of
             None \<Rightarrow> False
           | Some st \<Rightarrow> xml_accepting st))"

section \<open>Notions of the specification\<close>

text \<open>Content that is empty or consists of whitespace only.\<close>

definition whitespace_only :: "jsstring \<Rightarrow> bool" where
  "whitespace_only s = list_all is_js_whitespace s"

text \<open>A file name suffix read without regard to the case of its ASCII letters.\<close>

definition ascii_lower :: "code_unit \<Rightarrow> code_unit" where
  "ascii_lower c = (if 0x41 \<le> c \<and> c \<le> 0x5A then c + 0x20 else c)"

text \<open>The content of the specification's upload scenario.\<close>

definition sample_esql :: jsstring where
  "sample_esql = js ''CREATE COMPUTE MODULE Test'' @ [0xA] @ js ''END MODULE;''"

text \<open>
  Text that may stand in a comment: well-formed UTF-16 of XML characters, with no two
  hyphens in a row.
\<close>

fun double_hyphen :: "code_point list \<Rightarrow> bool" where
  "double_hyphen (a # b # cs) = ((a = 0x2D \<and> b = 0x2D) \<or> double_hyphen (b # cs))"
| "double_hyphen cs = False"

definition comment_safe :: "jsstring \<Rightarrow> bool" where
  "comment_safe s =
     (case utf16_decode s of
        None \<Rightarrow> False
      | Some cps \<Rightarrow> list_all xml_char cps \<and> \<not> double_hyphen cps)"

definition ends_with_esql :: "jsstring \<Rightarrow> bool" where
  "ends_with_esql fileName =
     (\<exists>stem ext. fileName = stem @ ext \<and> map ascii_lower ext = js ''.esql'')"

text \<open>
  The two response shapes of the specification: status 200 with the eight fields of the
  success object, \<open>success\<close> true; status 400 with \<open>success\<close>, false, and a string \<open>error\<close>.
\<close>

definition success_object :: "(string \<times> field) list \<Rightarrow> bool" where
  "success_object obj \<longleftrightarrow>
     map fst obj =
       [''success'', ''originalFileName'', ''convertedFileName'', ''xsdContent'',
        ''esqlContentLength'', ''xsdContentLength'', ''conversionDate'', ''conversionType''] \<and>
     map_of obj ''success'' = Some (FBool True)"

fun error_object :: "(string \<times> field) list \<Rightarrow> bool" where
  "error_object [(k, FBool False), (k', FString m)] \<longleftrightarrow> k = ''success'' \<and> k' = ''error''"
| "error_object obj \<longleftrightarrow> False"

fun claimed_shape :: "reply \<Rightarrow> bool" where
  "claimed_shape r \<longleftrightarrow>
     (case sent r of
        JsonObject obj \<Rightarrow>
          code r = 200 \<and> success_object obj \<or> code r = 400 \<and> error_object obj
      | _ \<Rightarrow> False)"

text \<open>The checker inside the root element \<open>xs:schema\<close> of the template.\<close>

definition in_schema :: "phase \<Rightarrow> xml_state" where
  "in_schema p = (p, [map of_char ''xs:schema''], True)"

section \<open>Properties of the conversion function\<close>

lemma js_trim_empty_iff: "js_trim s = [] \<longleftrightarrow> whitespace_only s"
proof -
  have a: "dropWhile is_js_whitespace s = [] \<longleftrightarrow> list_all is_js_whitespace s"
    by (simp add: dropWhile_eq_Nil_conv list_all_iff)
  have b: "dropWhile is_js_whitespace (rev (dropWhile is_js_whitespace s)) = []
      \<longleftrightarrow> dropWhile is_js_whitespace s = []"
  proof
    assume a: "dropWhile is_js_whitespace (rev (dropWhile is_js_whitespace s)) = []"
    show "dropWhile is_js_whitespace s = []"
    proof (rule ccontr)
      assume n: "dropWhile is_js_whitespace s \<noteq> []"
      then have "\<not> is_js_whitespace (hd (dropWhile is_js_whitespace s))"
        by (rule hd_dropWhile)
      moreover have "hd (dropWhile is_js_whitespace s) \<in> set (rev (dropWhile is_js_whitespace s))"
        using n by simp
      ultimately show False using a by auto
    qed
  next
    assume e: "dropWhile is_js_whitespace s = []"
    show "dropWhile is_js_whitespace (rev (dropWhile is_js_whitespace s)) = []"
      unfolding e by simp
  qed
  show ?thesis
    unfolding js_trim_def whitespace_only_def rev_is_Nil_conv b a by (rule refl)
qed

lemma convert_string:
  "convertESQLToXSD now (JStr s) (JStr f) =
     (if whitespace_only s then Inl (Error (js ''ESQL content is empty''))
      else Inr (xsd_template xsd_skeleton f now))"
  by (cases "s = []")
     (auto simp: convertESQLToXSD_def js_trim_empty_iff whitespace_only_def Let_def)

lemma convert_returns_only_for_strings:
  "convertESQLToXSD now esqlCode fileName = Inr x \<Longrightarrow>
     \<exists>s. esqlCode = JStr s \<and> \<not> whitespace_only s"
  by (cases esqlCode)
     (auto simp: convertESQLToXSD_def js_trim_empty_iff Let_def split: if_splits sum.splits)

text \<open>
  C1. Two contents that are neither empty nor whitespace only, converted under the same
  file name at the same clock reading, give the same document: \<open>convertESQLToXSD\<close>
  returns for both, and returns the same string.
\<close>

theorem convert_ignores_content:
  assumes "\<not> whitespace_only c1" and "\<not> whitespace_only c2"
  shows "\<exists>xsdContent.
           convertESQLToXSD now (JStr c1) (JStr f) = Inr xsdContent \<and>
           convertESQLToXSD now (JStr c2) (JStr f) = Inr xsdContent"
  using assms by (simp add: convert_string)

theorem convert_ignores_content_witness:
  "\<not> whitespace_only (js ''SET a = 1;'') \<and> \<not> whitespace_only (js ''CALL b();'') \<and>
   (\<exists>xsdContent.
      convertESQLToXSD (js ''2024-01-01T00:00:00.000Z'') (JStr (js ''SET a = 1;''))
        (JStr (js ''m.esql'')) = Inr xsdContent \<and>
      convertESQLToXSD (js ''2024-01-01T00:00:00.000Z'') (JStr (js ''CALL b();''))
        (JStr (js ''m.esql'')) = Inr xsdContent)"
proof -
  have h1: "\<not> whitespace_only (js ''SET a = 1;'')"
    by (simp add: whitespace_only_def js_def is_js_whitespace_def)
  have h2: "\<not> whitespace_only (js ''CALL b();'')"
    by (simp add: whitespace_only_def js_def is_js_whitespace_def)
  from convert_ignores_content [OF h1 h2] h1 h2 show ?thesis by blast
qed


section \<open>Properties of the template\<close>

lemma js_join_append:
  "xs \<noteq> [] \<Longrightarrow> ys \<noteq> [] \<Longrightarrow> js_join sep (xs @ ys) = js_join sep xs @ sep @ js_join sep ys"
proof (induction sep xs rule: js_join.induct)
  case (2 sep l)
  then show ?case by (cases ys) simp_all
qed simp_all




section \<open>Properties of the route handler\<close>

lemma try_convert_Inr:
  assumes "try_convert conv now req = Inr payload"
  shows "\<exists>c f x. extract_input req = Inr (c, JStr f) \<and> truthy c \<and> conv c (JStr f) = Inr x \<and>
           payload = [(''success'', FBool True),
                      (''originalFileName'', FString f),
                      (''convertedFileName'', FString (replace_esql f)),
                      (''xsdContent'', FString x),
                      (''esqlContentLength'', FNumber (js_length c)),
                      (''xsdContentLength'', FNumber (length x)),
                      (''conversionDate'', FString now),
                      (''conversionType'', FString (js ''ESQL_TO_XSD''))]"
  using assms unfolding try_convert_def
  by (auto split: sum.splits prod.splits if_splits jsval.splits)

lemma handle_convert_cases:
  "(\<exists>payload. try_convert conv now req = Inr payload \<and>
       handle_convert conv now req = \<lparr>status = 200, json = payload\<rparr>) \<or>
   (\<exists>e. try_convert conv now req = Inl e \<and>
       handle_convert conv now req =
         \<lparr>status = 400, json = [(''success'', FBool False), (''error'', FString (message e))]\<rparr>)"
  unfolding handle_convert_def by (cases "try_convert conv now req") auto

lemma api_convert_success:
  assumes "status (api_convert tr ts req) = 200"
  shows "\<exists>s f. extract_input req = Inr (JStr s, JStr f) \<and> \<not> whitespace_only s \<and>
           json (api_convert tr ts req) =
             [(''success'', FBool True),
              (''originalFileName'', FString f),
              (''convertedFileName'', FString (replace_esql f)),
              (''xsdContent'', FString (xsd_template xsd_skeleton f tr)),
              (''esqlContentLength'', FNumber (length s)),
              (''xsdContentLength'', FNumber (length (xsd_template xsd_skeleton f tr))),
              (''conversionDate'', FString ts),
              (''conversionType'', FString (js ''ESQL_TO_XSD''))]"
proof -
  from handle_convert_cases [of "convertESQLToXSD tr" ts req] assms
  obtain payload where p: "try_convert (convertESQLToXSD tr) ts req = Inr payload"
    and r: "api_convert tr ts req = \<lparr>status = 200, json = payload\<rparr>"
    by (auto simp: api_convert_def)
  from try_convert_Inr [OF p] obtain c f x where
    e: "extract_input req = Inr (c, JStr f)" and c: "convertESQLToXSD tr c (JStr f) = Inr x"
    and pl: "payload = [(''success'', FBool True),
                      (''originalFileName'', FString f),
                      (''convertedFileName'', FString (replace_esql f)),
                      (''xsdContent'', FString x),
                      (''esqlContentLength'', FNumber (js_length c)),
                      (''xsdContentLength'', FNumber (length x)),
                      (''conversionDate'', FString ts),
                      (''conversionType'', FString (js ''ESQL_TO_XSD''))]"
    by blast
  from convert_returns_only_for_strings [OF c] obtain s where s: "c = JStr s" "\<not> whitespace_only s"
    by blast
  with c have "x = xsd_template xsd_skeleton f tr" by (simp add: convert_string)
  with e s pl r show ?thesis by simp
qed

lemma upload_response:
  "\<not> whitespace_only (data file) \<Longrightarrow>
   api_convert tr ts \<lparr>files_file = [file], body = b\<rparr> =
     \<lparr>status = 200,
      json = [(''success'', FBool True),
              (''originalFileName'', FString (name file)),
              (''convertedFileName'', FString (replace_esql (name file))),
              (''xsdContent'', FString (xsd_template xsd_skeleton (name file) tr)),
              (''esqlContentLength'', FNumber (length (data file))),
              (''xsdContentLength'', FNumber (length (xsd_template xsd_skeleton (name file) tr))),
              (''conversionDate'', FString ts),
              (''conversionType'', FString (js ''ESQL_TO_XSD''))]\<rparr>"
  by (auto simp: api_convert_def handle_convert_def try_convert_def extract_input_def
      convert_string whitespace_only_def)

lemma sample_not_blank: "\<not> whitespace_only sample_esql"
  by (simp add: sample_esql_def whitespace_only_def js_def is_js_whitespace_def)

text \<open>
  C2, as the code has it. The JSON body \<open>{"content": "", "filename": "x.esql"}\<close> is
  answered 400, but the message is the one of the handler's own guard (line 105),
  \<open>No ESQL content provided\<close>: the empty string is falsy, so the guard throws before
  \<open>convertESQLToXSD\<close> and its \<open>ESQL content is empty\<close> are reached.
\<close>

theorem empty_json_content_rejected_by_guard:
  "api_convert tr ts
     \<lparr>files_file = [],
      body = JObj [(js ''content'', JStr []), (js ''filename'', JStr (js ''x.esql''))]\<rparr> =
   \<lparr>status = 400,
    json = [(''success'', FBool False),
            (''error'', FString (js ''No ESQL content provided''))]\<rparr>"
  by (simp add: api_convert_def handle_convert_def try_convert_def extract_input_def js_or_def
      js_def)

text \<open>
  C2 as stated fails: the response to that body is not the one whose error is
  \<open>ESQL content is empty\<close>.
\<close>

theorem empty_json_content_message_counterexample:
  "api_convert (js ''2024-01-01T00:00:00.000Z'') (js ''2024-01-01T00:00:00.001Z'')
     \<lparr>files_file = [],
      body = JObj [(js ''content'', JStr []), (js ''filename'', JStr (js ''x.esql''))]\<rparr> \<noteq>
   \<lparr>status = 400,
    json = [(''success'', FBool False), (''error'', FString (js ''ESQL content is empty''))]\<rparr>"
  by (simp add: api_convert_def handle_convert_def try_convert_def extract_input_def js_or_def
      js_def)



text \<open>
  C9, as the code has it. A response of the handler, sent to a request that the
  middleware of lines 9 to 14 handed to it, has one of two shapes: status 200 with exactly
  the eight fields of the success object, \<open>success\<close> being true; or status 400 with exactly
  \<open>success\<close>, false, and \<open>error\<close>, a string.
\<close>

theorem response_shapes:
  "((status (api_convert tr ts req) = 200 \<and>
     map fst (json (api_convert tr ts req)) =
       [''success'', ''originalFileName'', ''convertedFileName'', ''xsdContent'',
        ''esqlContentLength'', ''xsdContentLength'', ''conversionDate'', ''conversionType''] \<and>
     map_of (json (api_convert tr ts req)) ''success'' = Some (FBool True)) \<or>
    (status (api_convert tr ts req) = 400 \<and>
     (\<exists>m. json (api_convert tr ts req) = [(''success'', FBool False), (''error'', FString m)]))) \<and>
   claimed_shape (post_api_convert tr ts (Handled req))"
proof -
  from handle_convert_cases [of "convertESQLToXSD tr" ts req]
  have "(status (api_convert tr ts req) = 200 \<and>
     map fst (json (api_convert tr ts req)) =
       [''success'', ''originalFileName'', ''convertedFileName'', ''xsdContent'',
        ''esqlContentLength'', ''xsdContentLength'', ''conversionDate'', ''conversionType''] \<and>
     map_of (json (api_convert tr ts req)) ''success'' = Some (FBool True)) \<or>
    (status (api_convert tr ts req) = 400 \<and>
     (\<exists>m. json (api_convert tr ts req) = [(''success'', FBool False), (''error'', FString m)]))"
  proof
    assume "\<exists>payload. try_convert (convertESQLToXSD tr) ts req = Inr payload \<and>
       handle_convert (convertESQLToXSD tr) ts req = \<lparr>status = 200, json = payload\<rparr>"
    then obtain payload where p: "try_convert (convertESQLToXSD tr) ts req = Inr payload"
      and r: "api_convert tr ts req = \<lparr>status = 200, json = payload\<rparr>"
      by (auto simp: api_convert_def)
    from try_convert_Inr [OF p] r show ?thesis by auto
  next
    assume "\<exists>e. try_convert (convertESQLToXSD tr) ts req = Inl e \<and>
       handle_convert (convertESQLToXSD tr) ts req =
         \<lparr>status = 400, json = [(''success'', FBool False), (''error'', FString (message e))]\<rparr>"
    then show ?thesis by (auto simp: api_convert_def)
  qed
  moreover from this have "claimed_shape (post_api_convert tr ts (Handled req))"
    by (auto simp: success_object_def)
  ultimately show ?thesis by (rule conjI)
qed

text \<open>
  C9 as stated, of every response from \<open>POST /api/convert\<close>, fails: a JSON body that does
  not parse is answered 400 by Express's final handler with an HTML page, not with the
  error object, and an upload over the limit is answered 413 by \<open>fileUpload\<close> with a text.
\<close>

theorem unparsed_body_counterexample:
  "post_api_convert (js ''2024-01-01T00:00:00.000Z'') (js ''2024-01-01T00:00:00.001Z'')
     (ParserFailed 400) = \<lparr>code = 400, sent = ErrorPage\<rparr> \<and>
   \<not> claimed_shape
       (post_api_convert (js ''2024-01-01T00:00:00.000Z'') (js ''2024-01-01T00:00:00.001Z'')
          (ParserFailed 400)) \<and>
   post_api_convert (js ''2024-01-01T00:00:00.000Z'') (js ''2024-01-01T00:00:00.001Z'')
     UploadAborted = \<lparr>code = 413, sent = PlainText\<rparr> \<and>
   \<not> claimed_shape
       (post_api_convert (js ''2024-01-01T00:00:00.000Z'') (js ''2024-01-01T00:00:00.001Z'')
          UploadAborted)"
  by (simp add: final_handler_def)




lemma map_of_filter_key:
  "map_of (filter (\<lambda>kv. fst kv \<noteq> a) kvs) k = (if k = a then None else map_of kvs k)"
  by (induction kvs) auto

text \<open>
  C10. In a JSON body, with no file attached, a \<open>filename\<close> that is the empty string is
  replaced by \<open>input.esql\<close>, exactly as if the field were not there; and a \<open>content\<close>
  that is the empty string gives way to a non-empty \<open>esqlContent\<close>.
\<close>

theorem empty_string_fields_fall_back:
  assumes "files_file req = []" and "body req = JObj kvs"
  shows "(map_of kvs (js ''filename'') = Some (JStr []) \<longrightarrow>
            (\<exists>c. extract_input req = Inr (c, JStr (js ''input.esql''))) \<and>
            extract_input req =
              extract_input (req\<lparr>body := JObj (filter (\<lambda>kv. fst kv \<noteq> js ''filename'') kvs)\<rparr>)) \<and>
         (map_of kvs (js ''content'') = Some (JStr []) \<and>
          map_of kvs (js ''esqlContent'') = Some (JStr e) \<and> e \<noteq> [] \<longrightarrow>
            (\<exists>fileName. extract_input req = Inr (JStr e, fileName)))"
  using assms
  by (auto simp: extract_input_def js_or_def map_of_filter_key js_def)

theorem empty_string_fields_fall_back_witness:
  "map_of [(js ''content'', JStr []), (js ''esqlContent'', JStr (js ''SET a = 1;'')),
           (js ''filename'', JStr [])] (js ''filename'') = Some (JStr []) \<and>
   map_of [(js ''content'', JStr []), (js ''esqlContent'', JStr (js ''SET a = 1;'')),
           (js ''filename'', JStr [])] (js ''content'') = Some (JStr []) \<and>
   map_of [(js ''content'', JStr []), (js ''esqlContent'', JStr (js ''SET a = 1;'')),
           (js ''filename'', JStr [])] (js ''esqlContent'') = Some (JStr (js ''SET a = 1;'')) \<and>
   js ''SET a = 1;'' \<noteq> [] \<and>
   extract_input
     \<lparr>files_file = [],
      body = JObj [(js ''content'', JStr []), (js ''esqlContent'', JStr (js ''SET a = 1;'')),
                   (js ''filename'', JStr [])]\<rparr> =
     Inr (JStr (js ''SET a = 1;''), JStr (js ''input.esql''))"
proof -
  let ?kvs = "[(js ''content'', JStr []), (js ''esqlContent'', JStr (js ''SET a = 1;'')),
               (js ''filename'', JStr [])]"
  have k: "map_of ?kvs (js ''filename'') = Some (JStr [])"
    "map_of ?kvs (js ''content'') = Some (JStr [])"
    "map_of ?kvs (js ''esqlContent'') = Some (JStr (js ''SET a = 1;''))"
    "js ''SET a = 1;'' \<noteq> []"
    by (simp_all add: js_def)
  have f: "files_file \<lparr>files_file = [], body = JObj ?kvs\<rparr> = []"
    and b: "body \<lparr>files_file = [], body = JObj ?kvs\<rparr> = JObj ?kvs"
    by simp_all
  note th = empty_string_fields_fall_back [OF f b, of "js ''SET a = 1;''"]
  have "\<exists>c. extract_input \<lparr>files_file = [], body = JObj ?kvs\<rparr> = Inr (c, JStr (js ''input.esql''))"
    by (rule th [THEN conjunct1, THEN mp, OF k(1), THEN conjunct1])
  moreover have "\<exists>fileName. extract_input \<lparr>files_file = [], body = JObj ?kvs\<rparr> =
            Inr (JStr (js ''SET a = 1;''), fileName)"
    by (rule th [THEN conjunct2, THEN mp, OF conjI [OF k(2) conjI [OF k(3) k(4)]]])
  ultimately have "extract_input \<lparr>files_file = [], body = JObj ?kvs\<rparr> =
     Inr (JStr (js ''SET a = 1;''), JStr (js ''input.esql''))"
    by auto
  with k show ?thesis by simp
qed

section \<open>The second revision on the empty content\<close>

text \<open>
  In the second revision nothing stands between the extraction and the conversion, so
  the JSON body \<open>{"content": "", "filename": "x.esql"}\<close> is answered 400 with the message
  of \<open>convertESQLToXSD\<close>, \<open>ESQL content is empty\<close>.
\<close>

theorem empty_json_content_second_revision:
  "api_convert_r2 tr ts None
     (JObj [(js ''content'', JStr []), (js ''filename'', JStr (js ''x.esql''))]) =
   \<lparr>status = 400,
    json = [(''success'', FBool False), (''error'', FString (js ''ESQL content is empty''))]\<rparr>"
  by (simp add: api_convert_r2_def convertESQLToXSD_r2_def js_or_def js_def)

section \<open>The converted file name\<close>

lemma add_0x20_eq: "(c :: code_unit) + 0x20 = p \<longleftrightarrow> c = p - 0x20"
  by auto

lemma regex_char_i_lower:
  "p = 0x2E \<or> p = 0x65 \<or> p = 0x73 \<or> p = 0x71 \<or> p = 0x6C \<Longrightarrow>
   regex_char_i p c \<longleftrightarrow> ascii_lower c = p"
  unfolding regex_char_i_def ascii_lower_def add_0x20_eq
  by (elim disjE; cases "0x41 \<le> c \<and> c \<le> 0x5A"; auto)

lemma esql_at_end_iff: "esql_at_end s \<longleftrightarrow> map ascii_lower s = js ''.esql''"
  unfolding esql_at_end_def js_def
  by (auto simp: list_all2_Cons1 regex_char_i_lower)

lemma replace_esql_suffix:
  "map ascii_lower ext = js ''.esql'' \<Longrightarrow> replace_esql (stem @ ext) = stem @ js ''.xsd''"
proof (induction stem)
  case Nil
  then have "esql_at_end ext" by (simp add: esql_at_end_iff)
  moreover from Nil have "ext \<noteq> []" by (auto simp: js_def)
  ultimately show ?case by (cases ext) simp_all
next
  case (Cons c stem)
  from Cons.prems have "length (map ascii_lower ext) = length (js ''.esql'')" by simp
  then have "length ext = 5" by (simp add: js_def)
  then have "\<not> esql_at_end (c # stem @ ext)"
    by (auto simp: esql_at_end_iff js_def dest!: arg_cong [where f = length])
  with Cons show ?case by simp
qed

lemma replace_esql_other: "\<not> ends_with_esql fileName \<Longrightarrow> replace_esql fileName = fileName"
proof (induction fileName)
  case Nil
  show ?case by simp
next
  case (Cons c cs)
  have "\<not> esql_at_end (c # cs)"
  proof
    assume "esql_at_end (c # cs)"
    then have "c # cs = [] @ (c # cs) \<and> map ascii_lower (c # cs) = js ''.esql''"
      by (simp add: esql_at_end_iff)
    with Cons.prems show False unfolding ends_with_esql_def by blast
  qed
  moreover have "\<not> ends_with_esql cs"
  proof
    assume "ends_with_esql cs"
    then obtain stem ext where "cs = stem @ ext" "map ascii_lower ext = js ''.esql''"
      unfolding ends_with_esql_def by blast
    then have "c # cs = (c # stem) @ ext \<and> map ascii_lower ext = js ''.esql''" by simp
    with Cons.prems show False unfolding ends_with_esql_def by blast
  qed
  ultimately show ?case using Cons.IH by simp
qed

text \<open>
  C5. The converted name is the file name with a trailing \<open>.esql\<close>, in any mix of upper
  and lower case, replaced by \<open>.xsd\<close>; a file name without such a suffix is unchanged.
  In a success response \<open>convertedFileName\<close> is the file name submitted with the request
  (the name of the uploaded file, or what lines 93 to 101 took from the body), so
  converted, and \<open>originalFileName\<close> is that file name.
\<close>

theorem converted_file_name_suffix:
  "(fileName = stem @ ext \<and> map ascii_lower ext = js ''.esql'' \<longrightarrow>
      replace_esql fileName = stem @ js ''.xsd'') \<and>
   (\<not> ends_with_esql fileName \<longrightarrow> replace_esql fileName = fileName) \<and>
   (status (api_convert tr ts req) = 200 \<longrightarrow>
      (\<exists>c f. extract_input req = Inr (c, JStr f) \<and>
           map_of (json (api_convert tr ts req)) ''originalFileName'' = Some (FString f) \<and>
           map_of (json (api_convert tr ts req)) ''convertedFileName'' =
             Some (FString (replace_esql f)))) \<and>
   (extract_input req = Inr (content, JStr submitted) \<and> status (api_convert tr ts req) = 200 \<longrightarrow>
      map_of (json (api_convert tr ts req)) ''convertedFileName'' =
        Some (FString (replace_esql submitted))) \<and>
   (\<not> whitespace_only (data file) \<longrightarrow>
      map_of (json (api_convert tr ts \<lparr>files_file = [file], body = b\<rparr>)) ''convertedFileName'' =
        Some (FString (replace_esql (name file))))"
proof (intro conjI impI)
  assume "fileName = stem @ ext \<and> map ascii_lower ext = js ''.esql''"
  then show "replace_esql fileName = stem @ js ''.xsd''"
    by (simp add: replace_esql_suffix)
next
  assume "\<not> ends_with_esql fileName"
  then show "replace_esql fileName = fileName" by (rule replace_esql_other)
next
  assume "status (api_convert tr ts req) = 200"
  from api_convert_success [OF this]
  show "\<exists>c f. extract_input req = Inr (c, JStr f) \<and>
           map_of (json (api_convert tr ts req)) ''originalFileName'' = Some (FString f) \<and>
           map_of (json (api_convert tr ts req)) ''convertedFileName'' =
             Some (FString (replace_esql f))"
    by auto
next
  assume a: "extract_input req = Inr (content, JStr submitted) \<and>
             status (api_convert tr ts req) = 200"
  then have "status (api_convert tr ts req) = 200" by simp
  from api_convert_success [OF this] a
  show "map_of (json (api_convert tr ts req)) ''convertedFileName'' =
          Some (FString (replace_esql submitted))"
    by auto
next
  assume "\<not> whitespace_only (data file)"
  then show "map_of (json (api_convert tr ts \<lparr>files_file = [file], body = b\<rparr>))
               ''convertedFileName'' = Some (FString (replace_esql (name file)))"
    by (simp add: upload_response)
qed

lemma txt_not_esql: "\<not> ends_with_esql (js ''a.txt'')"
proof
  assume "ends_with_esql (js ''a.txt'')"
  then obtain stem ext where s: "js ''a.txt'' = stem @ ext" and e: "map ascii_lower ext = js ''.esql''"
    unfolding ends_with_esql_def by blast
  from e have "length (map ascii_lower ext) = length (js ''.esql'')" by simp
  then have "length ext = 5" by (simp add: js_def)
  moreover from s have "length (js ''a.txt'') = length stem + length ext" by simp
  ultimately have "stem = []" by (simp add: js_def)
  with s have "ext = js ''a.txt''" by simp
  with e show False by (simp add: js_def ascii_lower_def)
qed

theorem converted_file_name_suffix_witness:
  "js ''Order.ESQL'' = js ''Order'' @ js ''.ESQL'' \<and>
   map ascii_lower (js ''.ESQL'') = js ''.esql'' \<and>
   replace_esql (js ''Order.ESQL'') = js ''Order.xsd'' \<and>
   \<not> ends_with_esql (js ''a.txt'') \<and>
   replace_esql (js ''a.txt'') = js ''a.txt'' \<and>
   extract_input \<lparr>files_file = [\<lparr>data = sample_esql, name = js ''Order.ESQL''\<rparr>],
                  body = JUndefined\<rparr> =
     Inr (JStr sample_esql, JStr (js ''Order.ESQL'')) \<and>
   \<not> whitespace_only sample_esql \<and>
   status (api_convert (js ''2024-01-01T00:00:00.000Z'') (js ''2024-01-01T00:00:00.001Z'')
             \<lparr>files_file = [\<lparr>data = sample_esql, name = js ''Order.ESQL''\<rparr>],
              body = JUndefined\<rparr>) = 200 \<and>
   map_of (json (api_convert (js ''2024-01-01T00:00:00.000Z'') (js ''2024-01-01T00:00:00.001Z'')
                   \<lparr>files_file = [\<lparr>data = sample_esql, name = js ''Order.ESQL''\<rparr>],
                    body = JUndefined\<rparr>)) ''originalFileName'' =
     Some (FString (js ''Order.ESQL'')) \<and>
   map_of (json (api_convert (js ''2024-01-01T00:00:00.000Z'') (js ''2024-01-01T00:00:00.001Z'')
                   \<lparr>files_file = [\<lparr>data = sample_esql, name = js ''Order.ESQL''\<rparr>],
                    body = JUndefined\<rparr>)) ''convertedFileName'' =
     Some (FString (js ''Order.xsd''))"
proof -
  let ?file = "\<lparr>data = sample_esql, name = js ''Order.ESQL''\<rparr>"
  let ?req = "\<lparr>files_file = [?file], body = JUndefined\<rparr>"
  let ?tr = "js ''2024-01-01T00:00:00.000Z''" and ?ts = "js ''2024-01-01T00:00:00.001Z''"
  have a: "js ''Order.ESQL'' = js ''Order'' @ js ''.ESQL'' \<and>
           map ascii_lower (js ''.ESQL'') = js ''.esql''"
    by (simp add: js_def ascii_lower_def)
  have x: "js ''Order'' @ js ''.xsd'' = js ''Order.xsd''" by (simp add: js_def)
  have e: "extract_input ?req = Inr (JStr sample_esql, JStr (js ''Order.ESQL''))"
    by (simp add: extract_input_def)
  have s: "status (api_convert ?tr ?ts ?req) = 200"
    using upload_response [of ?file ?tr ?ts JUndefined] by (simp add: sample_not_blank)
  have n: "\<not> whitespace_only (data ?file)" by (simp add: sample_not_blank)
  note th = converted_file_name_suffix
      [of "js ''Order.ESQL''" "js ''Order''" "js ''.ESQL''" ?tr ?ts ?req "JStr sample_esql"
          "js ''Order.ESQL''" ?file JUndefined]
  note th2 = converted_file_name_suffix
      [of "js ''a.txt''" "[]" "[]" ?tr ?ts ?req "JStr sample_esql" "js ''Order.ESQL''" ?file
          JUndefined]
  have r: "replace_esql (js ''Order.ESQL'') = js ''Order.xsd''"
    using th [THEN conjunct1, THEN mp, OF a] x by simp
  have t: "replace_esql (js ''a.txt'') = js ''a.txt''"
    by (rule th2 [THEN conjunct2, THEN conjunct1, THEN mp, OF txt_not_esql])
  from th [THEN conjunct2, THEN conjunct2, THEN conjunct1, THEN mp, OF s] e
  have o: "map_of (json (api_convert ?tr ?ts ?req)) ''originalFileName'' =
             Some (FString (js ''Order.ESQL''))"
    by auto
  from th [THEN conjunct2, THEN conjunct2, THEN conjunct2, THEN conjunct1, THEN mp,
           OF conjI [OF e s]] r
  have c: "map_of (json (api_convert ?tr ?ts ?req)) ''convertedFileName'' =
             Some (FString (js ''Order.xsd''))"
    by simp
  from th [THEN conjunct2, THEN conjunct2, THEN conjunct2, THEN conjunct2, THEN mp, OF n] r
  have c': "map_of (json (api_convert ?tr ?ts ?req)) ''convertedFileName'' =
             Some (FString (js ''Order.xsd''))"
    by simp
  from a r t e s o c c' show ?thesis
    using txt_not_esql sample_not_blank by (intro conjI) simp_all
qed

section \<open>The generated comments\<close>



section \<open>Errors\<close>

text \<open>
  C3, as the code has it. The \<open>catch\<close> of the handler answers every exception raised in
  the \<open>try\<close> block, thrown by the validation or by the engine, with status 400 and the
  exception's message; the handler never answers 500. The generic 500 with
  \<open>Internal server error\<close> is the answer of the error-handling middleware of the third
  revision, which Express calls for an error passed on by a middleware before the route.
\<close>

theorem handler_errors_are_400_middleware_500:
  "(try_convert (convertESQLToXSD_r3 tr) ts req = Inl e \<longrightarrow>
      app_r3 tr ts (Routed req) =
        \<lparr>status = 400, json = [(''success'', FBool False), (''error'', FString (message e))]\<rparr>) \<and>
   status (app_r3 tr ts (Routed req)) \<noteq> 500 \<and>
   app_r3 tr ts (MiddlewareFailed e') =
     \<lparr>status = 500,
      json = [(''success'', FBool False), (''error'', FString (js ''Internal server error''))]\<rparr>"
  using handle_convert_cases [of "convertESQLToXSD_r3 tr" ts req]
  by (auto simp: api_convert_r3_def error_middleware_def)

theorem handler_errors_are_400_middleware_500_witness:
  "try_convert (convertESQLToXSD_r3 (js ''2024-01-01T00:00:00.000Z''))
     (js ''2024-01-01T00:00:00.001Z'')
     \<lparr>files_file = [],
      body = JObj [(js ''content'', JStr sample_esql), (js ''filename'', JNum True (js ''7''))]\<rparr> =
     Inl (TypeError (js ''fileName.replace is not a function'')) \<and>
   app_r3 (js ''2024-01-01T00:00:00.000Z'') (js ''2024-01-01T00:00:00.001Z'')
     (Routed \<lparr>files_file = [],
              body = JObj [(js ''content'', JStr sample_esql),
                           (js ''filename'', JNum True (js ''7''))]\<rparr>) =
     \<lparr>status = 400,
      json = [(''success'', FBool False),
              (''error'', FString (message (TypeError (js ''fileName.replace is not a function''))))]\<rparr>"
proof -
  let ?req = "\<lparr>files_file = [],
      body = JObj [(js ''content'', JStr sample_esql), (js ''filename'', JNum True (js ''7''))]\<rparr>"
  let ?tr = "js ''2024-01-01T00:00:00.000Z''" and ?ts = "js ''2024-01-01T00:00:00.001Z''"
  have n: "sample_esql \<noteq> []" by (simp add: sample_esql_def js_def)
  have w: "js_trim sample_esql \<noteq> []" using sample_not_blank by (simp add: js_trim_empty_iff)
  have h: "try_convert (convertESQLToXSD_r3 ?tr) ?ts ?req =
             Inl (TypeError (js ''fileName.replace is not a function''))"
    using n w
    by (simp add: try_convert_def extract_input_def js_or_def convertESQLToXSD_r3_def js_def)
  from handler_errors_are_400_middleware_500
         [of ?tr ?ts ?req "TypeError (js ''fileName.replace is not a function'')" "Error []",
          THEN conjunct1, THEN mp, OF h] h
  show ?thesis by (intro conjI)
qed

text \<open>
  C3 as stated fails: a JSON body whose \<open>content\<close> is the number 5 makes the engine throw
  a \<open>TypeError\<close> in \<open>convertESQLToXSD\<close>, and the caller gets status 400 with the engine's
  message, not a generic 500.
\<close>

theorem type_error_answered_400_counterexample:
  "try_convert (convertESQLToXSD_r3 (js ''2024-01-01T00:00:00.000Z''))
     (js ''2024-01-01T00:00:00.001Z'')
     \<lparr>files_file = [], body = JObj [(js ''content'', JNum True (js ''5''))]\<rparr> =
     Inl (TypeError (js ''esqlCode.trim is not a function'')) \<and>
   app_r3 (js ''2024-01-01T00:00:00.000Z'') (js ''2024-01-01T00:00:00.001Z'')
     (Routed \<lparr>files_file = [], body = JObj [(js ''content'', JNum True (js ''5''))]\<rparr>) =
     \<lparr>status = 400,
      json = [(''success'', FBool False),
              (''error'', FString (js ''esqlCode.trim is not a function''))]\<rparr>"
  by (simp add: api_convert_r3_def handle_convert_def try_convert_def extract_input_def js_or_def
      js_def convertESQLToXSD_r3_def)

section \<open>The rendered document as XML\<close>

subsection \<open>Decoding\<close>

lemma of_char_less: "(of_char c :: nat) < 256"
proof -
  have "(of_char c :: nat) mod 256 = of_char c" by (rule of_char_mod_256)
  then show ?thesis by (metis mod_less_divisor zero_less_numeral)
qed

lemma unat_of_char: "unat (of_char c :: code_unit) = of_char c"
proof -
  have "(of_char c :: nat) < 65536" using of_char_less [of c] by linarith
  then have "unat (of_nat (of_char c) :: code_unit) = of_char c"
    by (simp add: unat_of_nat)
  then show ?thesis by (simp only: of_nat_of_char)
qed

lemma of_char_no_surrogate:
  "\<not> high_surrogate (of_char c)" "\<not> low_surrogate (of_char c)"
  using of_char_less [of c] unfolding high_surrogate_def low_surrogate_def unat_of_char
  by linarith+

lemma utf16_decode_Cons:
  "\<not> high_surrogate c \<Longrightarrow> \<not> low_surrogate c \<Longrightarrow>
   utf16_decode (c # cs) = map_option ((#) (unat c)) (utf16_decode cs)"
  by (cases cs) simp_all

lemma utf16_decode_js: "utf16_decode (js s) = Some (map of_char s)"
  by (induction s) (simp_all add: js_def utf16_decode_Cons of_char_no_surrogate unat_of_char)

lemma utf16_decode_append:
  "utf16_decode a = Some x \<Longrightarrow> utf16_decode (a @ b) = map_option ((@) x) (utf16_decode b)"
proof (induction a arbitrary: x rule: utf16_decode.induct)
  case 1
  then show ?case by (simp add: option.map_ident)
next
  case (2 c)
  then show ?case
    by (cases "utf16_decode b") (auto simp: utf16_decode_Cons split: if_splits)
next
  case (3 c d cs)
  then show ?case
    by (cases "utf16_decode b") (auto split: if_splits)
qed

lemma utf16_decode_append_Some:
  "utf16_decode a = Some x \<Longrightarrow> utf16_decode b = Some y \<Longrightarrow> utf16_decode (a @ b) = Some (x @ y)"
  by (simp add: utf16_decode_append)

lemma utf16_decode_join:
  "list_all2 (\<lambda>l x. utf16_decode l = Some x) ls xs \<Longrightarrow>
   utf16_decode (js_join [0xA] ls) = Some (js_join [0xA] xs)"
proof (induction ls arbitrary: xs)
  case Nil
  then show ?case by simp
next
  case (Cons l ls)
  from Cons.prems obtain x xs' where xs: "xs = x # xs'" and x: "utf16_decode l = Some x"
    and rest: "list_all2 (\<lambda>l x. utf16_decode l = Some x) ls xs'"
    by (cases xs) auto
  show ?case
  proof (cases ls)
    case Nil
    with rest have "xs' = []" by simp
    with Nil xs x show ?thesis by simp
  next
    case (Cons m ms)
    with rest obtain y ys where xs': "xs' = y # ys" by (cases xs') auto
    have "utf16_decode [0xA :: code_unit] = Some [0xA]"
      by (simp add: high_surrogate_def low_surrogate_def)
    moreover have "utf16_decode (js_join [0xA] ls) = Some (js_join [0xA] xs')"
      using rest by (rule Cons.IH)
    ultimately have "utf16_decode (l @ [0xA] @ js_join [0xA] ls) =
        Some (x @ [0xA] @ js_join [0xA] xs')"
      using x by (intro utf16_decode_append_Some)
    with Cons xs xs' show ?thesis by simp
  qed
qed

lemma decode_lines: "list_all2 (\<lambda>l x. utf16_decode l = Some x) (map js ls) (map (map of_char) ls)"
  by (induction ls) (simp_all add: utf16_decode_js)

subsection \<open>The checker on the template\<close>

lemma xml_run_append:
  "xml_run st (a @ b) = (case xml_run st a of None \<Rightarrow> None | Some st' \<Rightarrow> xml_run st' b)"
  by (induction a arbitrary: st) (simp_all split: option.splits)

lemma xml_run_join:
  "xml_run st (js_join [0xA] (l # m # ls)) =
     (case xml_run st l of
        None \<Rightarrow> None
      | Some st' \<Rightarrow>
          (case xml_step st' 0xA of
             None \<Rightarrow> None
           | Some st'' \<Rightarrow> xml_run st'' (js_join [0xA] (m # ls))))"
  by (simp add: xml_run_append split: option.splits)

lemma xml_run_join_last: "xml_run st (js_join [0xA] [l]) = xml_run st l"
  by simp

lemma name_start_char_ascii:
  "c < 0x80 \<Longrightarrow>
   name_start_char c \<longleftrightarrow>
     c = 0x3A \<or> (0x41 \<le> c \<and> c \<le> 0x5A) \<or> c = 0x5F \<or> (0x61 \<le> c \<and> c \<le> 0x7A)"
  unfolding name_start_char_def by auto

lemma name_char_ascii:
  "c < 0x80 \<Longrightarrow>
   name_char c \<longleftrightarrow>
     c = 0x2D \<or> c = 0x2E \<or> (0x30 \<le> c \<and> c \<le> 0x3A) \<or> (0x41 \<le> c \<and> c \<le> 0x5A) \<or> c = 0x5F \<or>
     (0x61 \<le> c \<and> c \<le> 0x7A)"
  unfolding name_char_def name_start_char_def by auto

lemma xml_char_ascii: "0x20 \<le> c \<Longrightarrow> c < 0x80 \<Longrightarrow> xml_char c"
  unfolding xml_char_def by auto

lemma xml_char_space: "xml_char 0x9" "xml_char 0xA" "xml_char 0xD"
  by (simp_all add: xml_char_def)

lemma literal_points:
  "map of_char ''xml'' = [120, 109, 108 :: nat]"
  "map of_char ''version'' = [118, 101, 114, 115, 105, 111, 110 :: nat]"
  "map of_char ''encoding'' = [101, 110, 99, 111, 100, 105, 110, 103 :: nat]"
  "map of_char ''standalone'' = [115, 116, 97, 110, 100, 97, 108, 111, 110, 101 :: nat]"
  "map of_char ''yes'' = [121, 101, 115 :: nat]"
  "map of_char ''no'' = [110, 111 :: nat]"
  "map of_char ''xs:schema'' = [120, 115, 58, 115, 99, 104, 101, 109, 97 :: nat]"
  by simp_all

lemmas xml_eval = xml_char_space literal_points
  xml_step.simps xml_run.simps xml_run_join xml_run_join_last
  tag_tail.simps tag_end.simps close_tag.simps markup_start_def
  decl_ok.simps decl_rest_ok.simps version_num.simps enc_name.simps yes_no_def
  ascii_digit_def ascii_letter_def list.pred_inject
  xml_space_def name_start_char_ascii name_char_ascii xml_char_ascii in_schema_def
  if_True if_False simp_thms option.case list.inject list.distinct append.simps rel_simps
  list.set image_insert image_empty insert_iff empty_iff fst_conv snd_conv prod.inject
  phase.simps tag_state.simps tag_kind.simps

lemma prolog_run:
  "xml_run (Start, [], False) (js_join [0xA] (map (map of_char) xsd_prolog)) =
     Some (in_schema Content)"
  by (simp add: xsd_prolog_def del: js_join.simps xml_run.simps,
      simp only: xml_eval cong: if_weak_cong option.case_cong_weak)

lemma skeleton_run:
  "xml_run (in_schema Content) (js_join [0xA] (map (map of_char) xsd_skeleton)) =
     Some (Content, [], True)"
  by (simp add: xsd_skeleton_def del: js_join.simps xml_run.simps,
      simp only: xml_eval cong: if_weak_cong option.case_cong_weak)


lemma comment_text_run:
  assumes "list_all xml_char F" and "\<not> double_hyphen F"
    and "p = Comment \<or> (p = CommentDash \<and> (F = [] \<or> hd F \<noteq> 0x2D))"
  shows "xml_run (p, ts, r) (F @ 0x20 # rest) = xml_run (Comment, ts, r) rest"
  using assms
proof (induction F arbitrary: p)
  case Nil
  then show ?case by (auto simp: xml_char_def)
next
  case (Cons c F)
  from Cons.prems(1) have c: "xml_char c" and F: "list_all xml_char F" by simp_all
  from Cons.prems(2) have nd: "\<not> double_hyphen F" by (cases F) auto
  show ?case
  proof (cases "c = 0x2D")
    case True
    with Cons.prems(3) have p: "p = Comment" by auto
    from True Cons.prems(2) have "F = [] \<or> hd F \<noteq> 0x2D" by (cases F) auto
    then have "xml_run (CommentDash, ts, r) (F @ 0x20 # rest) = xml_run (Comment, ts, r) rest"
      using F nd by (intro Cons.IH) auto
    with True p show ?thesis by simp
  next
    case False
    have "xml_run (Comment, ts, r) (F @ 0x20 # rest) = xml_run (Comment, ts, r) rest"
      using F nd by (intro Cons.IH) auto
    with False c Cons.prems(3) show ?thesis by auto
  qed
qed

lemma comment_run:
  assumes "list_all xml_char F" and "\<not> double_hyphen F"
  shows "xml_run (in_schema Comment) (F @ map of_char '' -->'' @ rest) =
         xml_run (in_schema Content) rest"
proof -
  have "xml_run (in_schema Comment) (F @ 0x20 # (map of_char ''-->'' @ rest)) =
        xml_run (in_schema Comment) (map of_char ''-->'' @ rest)"
    unfolding in_schema_def using assms by (intro comment_text_run) auto
  also have "\<dots> = xml_run (in_schema Content) rest"
    by (simp add: in_schema_def)
  finally show ?thesis by simp
qed

lemma comment_open_run:
  "xml_run (in_schema Content) (0xA # map of_char ''    <!-- Generated from ESQL file: '') =
     Some (in_schema Comment)"
  "xml_run (in_schema Content) (0xA # map of_char ''    <!-- Generated on: '') =
     Some (in_schema Comment)"
  by (simp_all add: in_schema_def xml_char_def xml_space_def markup_start_def)

lemma template_points:
  assumes "utf16_decode f = Some F" and "utf16_decode t = Some T"
  shows "utf16_decode (xsd_template sk f t) =
         Some (js_join [0xA]
                 (map (map of_char) xsd_prolog @
                  [map of_char ''    <!-- Generated from ESQL file: '' @ F @ map of_char '' -->'',
                   map of_char ''    <!-- Generated on: '' @ T @ map of_char '' -->''] @
                  map (map of_char) sk))"
  unfolding xsd_template_def
proof (rule utf16_decode_join)
  have "utf16_decode (js ''    <!-- Generated from ESQL file: '' @ f @ js '' -->'') =
        Some (map of_char ''    <!-- Generated from ESQL file: '' @ F @ map of_char '' -->'')"
    using assms(1) by (intro utf16_decode_append_Some utf16_decode_js)
  moreover have "utf16_decode (js ''    <!-- Generated on: '' @ t @ js '' -->'') =
        Some (map of_char ''    <!-- Generated on: '' @ T @ map of_char '' -->'')"
    using assms(2) by (intro utf16_decode_append_Some utf16_decode_js)
  ultimately show "list_all2 (\<lambda>l x. utf16_decode l = Some x)
     (map js xsd_prolog @
      [js ''    <!-- Generated from ESQL file: '' @ f @ js '' -->'',
       js ''    <!-- Generated on: '' @ t @ js '' -->''] @
      map js sk)
     (map (map of_char) xsd_prolog @
      [map of_char ''    <!-- Generated from ESQL file: '' @ F @ map of_char '' -->'',
       map of_char ''    <!-- Generated on: '' @ T @ map of_char '' -->''] @
      map (map of_char) sk)"
    by (intro list_all2_appendI decode_lines) simp
qed

lemma skeleton_nonempty: "xsd_skeleton \<noteq> []" "xsd_prolog \<noteq> []"
  by (simp_all add: xsd_skeleton_def xsd_prolog_def)

lemma js_join_around:
  assumes "P \<noteq> []" and "S \<noteq> []"
  shows "js_join sep (P @ [a, b] @ S) =
         js_join sep P @ (sep @ a) @ (sep @ b) @ (sep @ js_join sep S)"
proof -
  from assms(2) obtain s S' where S: "S = s # S'" by (cases S) auto
  have "js_join sep (P @ [a, b] @ S) = js_join sep P @ sep @ js_join sep ([a, b] @ S)"
    using assms(1) by (intro js_join_append) simp_all
  also have "js_join sep ([a, b] @ S) = a @ sep @ b @ sep @ js_join sep S"
    by (simp add: S)
  finally show ?thesis by simp
qed

lemma parts_run:
  assumes P: "xml_run st P = Some (in_schema Content)"
    and A: "xml_run (in_schema Content) ([0xA] @ A) = Some (in_schema Comment)"
    and B: "xml_run (in_schema Content) ([0xA] @ B) = Some (in_schema Comment)"
    and S: "xml_run (in_schema Content) ([0xA] @ S) = Some fin"
    and F: "list_all xml_char F" "\<not> double_hyphen F"
    and T: "list_all xml_char T" "\<not> double_hyphen T"
  shows "xml_run st (P @ ([0xA] @ A @ F @ map of_char '' -->'') @
                      ([0xA] @ B @ T @ map of_char '' -->'') @ ([0xA] @ S)) = Some fin"
proof -
  let ?E = "map of_char '' -->''"
  have 1: "xml_run (in_schema Comment) (T @ ?E @ ([0xA] @ S)) = Some fin"
    by (simp only: comment_run [OF T] S)
  have 2: "xml_run (in_schema Content) (([0xA] @ B) @ T @ ?E @ ([0xA] @ S)) = Some fin"
    by (simp only: xml_run_append [of _ "[0xA] @ B"] B option.case 1)
  have 3: "xml_run (in_schema Comment) (F @ ?E @ (([0xA] @ B) @ T @ ?E @ ([0xA] @ S))) = Some fin"
    by (simp only: comment_run [OF F] 2)
  have 4: "xml_run (in_schema Content)
            (([0xA] @ A) @ F @ ?E @ (([0xA] @ B) @ T @ ?E @ ([0xA] @ S))) = Some fin"
    by (simp only: xml_run_append [of _ "[0xA] @ A"] A option.case 3)
  have 5: "xml_run st (P @ ([0xA] @ A) @ F @ ?E @ (([0xA] @ B) @ T @ ?E @ ([0xA] @ S))) = Some fin"
    by (simp only: xml_run_append [of _ P] P option.case 4)
  then show ?thesis by (simp only: append_assoc)
qed

lemma template_run:
  assumes "list_all xml_char F" "\<not> double_hyphen F" "list_all xml_char T" "\<not> double_hyphen T"
  shows "xml_run (Start, [], False)
           (js_join [0xA]
                 (map (map of_char) xsd_prolog @
                  [map of_char ''    <!-- Generated from ESQL file: '' @ F @ map of_char '' -->'',
                   map of_char ''    <!-- Generated on: '' @ T @ map of_char '' -->''] @
                  map (map of_char) xsd_skeleton)) = Some (Content, [], True)"
proof -
  have ne: "map (map of_char) xsd_prolog \<noteq> []" "map (map of_char) xsd_skeleton \<noteq> []"
    using skeleton_nonempty by simp_all
  have S: "xml_run (in_schema Content) ([0xA] @ js_join [0xA] (map (map of_char) xsd_skeleton)) =
             Some (Content, [], True)"
    using skeleton_run by (simp add: in_schema_def xml_char_def del: js_join.simps)
  have A: "xml_run (in_schema Content) ([0xA] @ map of_char ''    <!-- Generated from ESQL file: '') =
             Some (in_schema Comment)"
    and B: "xml_run (in_schema Content) ([0xA] @ map of_char ''    <!-- Generated on: '') =
             Some (in_schema Comment)"
    using comment_open_run by simp_all
  show ?thesis
    unfolding js_join_around [OF ne]
    using parts_run [OF prolog_run A B S assms] by (simp only: append_assoc)
qed

lemma template_well_formed:
  assumes "comment_safe f" and "comment_safe t"
  shows "well_formed_xml (xsd_template xsd_skeleton f t)"
proof -
  from assms obtain F T where F: "utf16_decode f = Some F" "list_all xml_char F" "\<not> double_hyphen F"
    and T: "utf16_decode t = Some T" "list_all xml_char T" "\<not> double_hyphen T"
    by (auto simp: comment_safe_def split: option.splits)
  show ?thesis
    unfolding well_formed_xml_def
    by (simp only: template_points [OF F(1) T(1)] template_run [OF F(2,3) T(2,3)] option.case
        xml_accepting.simps simp_thms)
qed

lemma xml_run_append_None: "xml_run st a = None \<Longrightarrow> xml_run st (a @ b) = None"
  by (simp add: xml_run_append)

lemma parts_fail:
  assumes P: "xml_run st P = Some (in_schema Content)"
    and A: "xml_run (in_schema Content) ([0xA] @ A) = Some (in_schema Comment)"
    and F: "xml_run (in_schema Comment) F = None"
  shows "xml_run st (P @ ([0xA] @ A @ F @ E) @ rest) = None"
proof -
  have "xml_run (in_schema Comment) (F @ E @ rest) = None"
    using F by (rule xml_run_append_None)
  then have "xml_run (in_schema Content) (([0xA] @ A) @ F @ E @ rest) = None"
    by (simp only: xml_run_append [of _ "[0xA] @ A"] A option.case)
  then have "xml_run st (P @ ([0xA] @ A) @ F @ E @ rest) = None"
    by (simp only: xml_run_append [of _ P] P option.case)
  then show ?thesis by (simp only: append_assoc)
qed

lemma double_hyphen_name_refused:
  "\<not> well_formed_xml (xsd_template xsd_skeleton (js ''a--b.esql'') (js t))"
proof -
  have ne: "map (map of_char) xsd_prolog \<noteq> []" "map (map of_char) xsd_skeleton \<noteq> []"
    using skeleton_nonempty by simp_all
  have A: "xml_run (in_schema Content) ([0xA] @ map of_char ''    <!-- Generated from ESQL file: '') =
           Some (in_schema Comment)"
    using comment_open_run by simp
  have F: "xml_run (in_schema Comment) (map of_char ''a--b.esql'') = None"
    by (simp add: in_schema_def xml_char_def)
  have "xml_run (Start, [], False)
         (js_join [0xA]
               (map (map of_char) xsd_prolog @
                [map of_char ''    <!-- Generated from ESQL file: '' @
                   map of_char ''a--b.esql'' @ map of_char '' -->'',
                 map of_char ''    <!-- Generated on: '' @ map of_char t @ map of_char '' -->''] @
                map (map of_char) xsd_skeleton)) = None"
    unfolding js_join_around [OF ne]
    using parts_fail [OF prolog_run A F] by (simp only: append_assoc)
  then show ?thesis
    unfolding well_formed_xml_def
    by (simp only: template_points [OF utf16_decode_js utf16_decode_js] option.case simp_thms)
qed

lemma convert_response:
  assumes "extract_input req = Inr (JStr s, JStr f)" and "\<not> whitespace_only s"
  shows "api_convert tr ts req =
     \<lparr>status = 200,
      json = [(''success'', FBool True),
              (''originalFileName'', FString f),
              (''convertedFileName'', FString (replace_esql f)),
              (''xsdContent'', FString (xsd_template xsd_skeleton f tr)),
              (''esqlContentLength'', FNumber (length s)),
              (''xsdContentLength'', FNumber (length (xsd_template xsd_skeleton f tr))),
              (''conversionDate'', FString ts),
              (''conversionType'', FString (js ''ESQL_TO_XSD''))]\<rparr>"
proof -
  from assms(2) have "s \<noteq> []" by (auto simp: whitespace_only_def)
  with assms show ?thesis
    by (simp add: api_convert_def handle_convert_def try_convert_def convert_string)
qed

lemma comment_safe_js:
  "comment_safe (js s) \<longleftrightarrow> list_all xml_char (map of_char s) \<and> \<not> double_hyphen (map of_char s)"
  by (simp add: comment_safe_def utf16_decode_js)

text \<open>
  C6, as the code has it. For every input text that is neither empty nor whitespace
  only, with a file name that is a string, the response is a success whose
  \<open>xsdContentLength\<close> is the length of its \<open>xsdContent\<close>; and \<open>xsdContent\<close> is well-formed
  XML whenever the file name and the rendered clock reading are text that may stand in
  a comment (they are copied into comments as they are).
\<close>

theorem lengths_agree_and_safe_names_well_formed:
  assumes "extract_input req = Inr (JStr s, JStr f)" and "\<not> whitespace_only s"
  shows "status (api_convert tr ts req) = 200 \<and>
         map_of (json (api_convert tr ts req)) ''xsdContent'' =
           Some (FString (xsd_template xsd_skeleton f tr)) \<and>
         map_of (json (api_convert tr ts req)) ''xsdContentLength'' =
           Some (FNumber (length (xsd_template xsd_skeleton f tr))) \<and>
         (comment_safe f \<and> comment_safe tr \<longrightarrow> well_formed_xml (xsd_template xsd_skeleton f tr))"
  using template_well_formed [of f tr] by (simp add: convert_response [OF assms])

theorem lengths_agree_and_safe_names_well_formed_witness:
  "extract_input \<lparr>files_file = [\<lparr>data = sample_esql, name = js ''sample.esql''\<rparr>], body = JUndefined\<rparr> =
     Inr (JStr sample_esql, JStr (js ''sample.esql'')) \<and>
   \<not> whitespace_only sample_esql \<and>
   comment_safe (js ''sample.esql'') \<and>
   comment_safe (js ''2024-01-01T00:00:00.000Z'') \<and>
   status (api_convert (js ''2024-01-01T00:00:00.000Z'') (js ''2024-01-01T00:00:00.001Z'')
     \<lparr>files_file = [\<lparr>data = sample_esql, name = js ''sample.esql''\<rparr>], body = JUndefined\<rparr>) = 200 \<and>
   well_formed_xml
     (xsd_template xsd_skeleton (js ''sample.esql'') (js ''2024-01-01T00:00:00.000Z''))"
proof -
  let ?req = "\<lparr>files_file = [\<lparr>data = sample_esql, name = js ''sample.esql''\<rparr>], body = JUndefined\<rparr>"
  have e: "extract_input ?req = Inr (JStr sample_esql, JStr (js ''sample.esql''))"
    by (simp add: extract_input_def)
  have c: "comment_safe (js ''sample.esql'') \<and> comment_safe (js ''2024-01-01T00:00:00.000Z'')"
    by (simp add: comment_safe_js xml_char_def)
  note th = lengths_agree_and_safe_names_well_formed [OF e sample_not_blank, of "js ''2024-01-01T00:00:00.000Z''"
      "js ''2024-01-01T00:00:00.001Z''"]
  have "status (api_convert (js ''2024-01-01T00:00:00.000Z'') (js ''2024-01-01T00:00:00.001Z'')
          ?req) = 200"
    by (rule th [THEN conjunct1])
  moreover have "well_formed_xml
     (xsd_template xsd_skeleton (js ''sample.esql'') (js ''2024-01-01T00:00:00.000Z''))"
    by (rule th [THEN conjunct2, THEN conjunct2, THEN conjunct2, THEN mp, OF c])
  ultimately show ?thesis using e sample_not_blank c by (intro conjI) simp_all
qed

text \<open>
  C6 as stated fails: for the file name \<open>a--b.esql\<close>, given in a JSON body, the
  response is a success whose \<open>xsdContent\<close> is not well-formed, since the name stands
  in a comment and a comment must not contain two hyphens in a row: after \<open>a--\<close> the
  checker is where only \<open>>\<close> may follow, and \<open>b\<close> is refused.
\<close>

theorem double_hyphen_file_name_counterexample:
  "extract_input
     \<lparr>files_file = [],
      body = JObj [(js ''content'', JStr sample_esql),
                   (js ''filename'', JStr (js ''a--b.esql''))]\<rparr> =
     Inr (JStr sample_esql, JStr (js ''a--b.esql'')) \<and>
   \<not> whitespace_only sample_esql \<and>
   api_convert (js ''2024-01-01T00:00:00.000Z'') (js ''2024-01-01T00:00:00.001Z'')
     \<lparr>files_file = [],
      body = JObj [(js ''content'', JStr sample_esql),
                   (js ''filename'', JStr (js ''a--b.esql''))]\<rparr> =
     \<lparr>status = 200,
      json = [(''success'', FBool True),
              (''originalFileName'', FString (js ''a--b.esql'')),
              (''convertedFileName'', FString (js ''a--b.xsd'')),
              (''xsdContent'',
                 FString (xsd_template xsd_skeleton (js ''a--b.esql'')
                            (js ''2024-01-01T00:00:00.000Z''))),
              (''esqlContentLength'', FNumber 38),
              (''xsdContentLength'',
                 FNumber (length (xsd_template xsd_skeleton (js ''a--b.esql'')
                                    (js ''2024-01-01T00:00:00.000Z'')))),
              (''conversionDate'', FString (js ''2024-01-01T00:00:00.001Z'')),
              (''conversionType'', FString (js ''ESQL_TO_XSD''))]\<rparr> \<and>
   xml_run (in_schema Comment) (map of_char ''a--'') = Some (in_schema CommentDashDash) \<and>
   xml_step (in_schema CommentDashDash) (of_char CHR ''b'') = None \<and>
   \<not> well_formed_xml
       (xsd_template xsd_skeleton (js ''a--b.esql'') (js ''2024-01-01T00:00:00.000Z''))"
proof -
  have x: "xml_run (in_schema Comment) (map of_char ''a--'') = Some (in_schema CommentDashDash)"
    "xml_step (in_schema CommentDashDash) (of_char CHR ''b'') = None"
    by (simp_all add: in_schema_def xml_char_def)
  let ?req = "\<lparr>files_file = [],
      body = JObj [(js ''content'', JStr sample_esql),
                   (js ''filename'', JStr (js ''a--b.esql''))]\<rparr>"
  have n: "sample_esql \<noteq> []" by (simp add: sample_esql_def js_def)
  then have e: "extract_input ?req = Inr (JStr sample_esql, JStr (js ''a--b.esql''))"
    by (simp add: extract_input_def js_or_def js_def)
  have r: "replace_esql (js ''a--b.esql'') = js ''a--b.xsd''"
    by (simp add: js_def esql_at_end_def regex_char_i_def)
  have l: "length sample_esql = 38" by (simp add: sample_esql_def js_def)
  show ?thesis
    using convert_response [OF e sample_not_blank] e sample_not_blank r l x
      double_hyphen_name_refused [of "''2024-01-01T00:00:00.000Z''"]
    by (intro conjI) simp_all
qed

end
